theory Spec2Isabelle
  imports Complex_Main "HOL-Library.Multiset"
begin

section \<open>Data model (types.ts)\<close>

text \<open>
  The interfaces of the attendance tracker, one record per TypeScript interface.
  Field names carry the interface as a prefix where two interfaces share a name
  (\<open>id\<close>, \<open>name\<close>) or where the name is a HOL constant. The optional
  \<open>password\<close> of a student is an option. A bounding box holds four JavaScript
  numbers, which no operation below computes with; they are carried as reals.
\<close>

record Student =
  student_id :: string
  student_name :: string
  student_rollNumber :: string
  student_password :: "string option"
  imageBase64 :: string
  imageType :: string
  imageUrl :: string

record Classroom =
  classroom_id :: string
  classroom_name :: string
  students :: "Student list"

datatype AttendanceStatus = Present | Absent

record AttendanceRecord =
  studentId :: string
  record_name :: string
  rollNumber :: string
  status :: AttendanceStatus

record BoundingBox =
  box_top :: real
  box_right :: real
  box_bottom :: real
  box_left :: real

record DetectedFace =
  face_id :: string
  face_name :: string
  face_box :: BoundingBox

record GeminiAttendanceResponse =
  present :: "DetectedFace list"
  unknown :: "DetectedFace list"
  absent :: "string list"
  response_engagementSummary :: string

text \<open>
  The \<open>date\<close> of a report is written by \<open>new Date().toISOString()\<close> and only read
  back through \<open>new Date(date).getTime()\<close>. The ISO text and the instant in
  milliseconds determine each other, so the field holds the instant.
\<close>

record AttendanceReport =
  report_id :: string
  classroomId :: string
  classroomName :: string
  date :: int
  period :: string
  attendance :: "AttendanceRecord list"
  capturedImageAsDataUrl :: string
  detectedFaces :: "DetectedFace list"
  engagementSummary :: string

section \<open>Array.prototype.sort with a comparator\<close>

text \<open>
  \<open>xs.sort(cmp)\<close> is a stable sort: \<open>a\<close> comes before \<open>b\<close> when \<open>cmp(a, b) < 0\<close>,
  after it when \<open>cmp(a, b) > 0\<close>, and elements that compare equal keep their order.
  For a consistent comparator this fixes the result, which the insertion sort below
  computes: each element is put in front of the first later element it does not
  exceed.
\<close>

fun sortInsert :: "('a \<Rightarrow> 'a \<Rightarrow> int) \<Rightarrow> 'a \<Rightarrow> 'a list \<Rightarrow> 'a list" where
  "sortInsert cmp a [] = [a]"
| "sortInsert cmp a (b # bs) =
     (if cmp a b \<le> 0 then a # b # bs else b # sortInsert cmp a bs)"

fun arraySort :: "('a \<Rightarrow> 'a \<Rightarrow> int) \<Rightarrow> 'a list \<Rightarrow> 'a list" where
  "arraySort cmp [] = []"
| "arraySort cmp (a # as) = sortInsert cmp a (arraySort cmp as)"

section \<open>JavaScript strings\<close>

text \<open>
  The strings the application makes and compares are lists of characters.
  \<open>join\<close> is \<open>Array.prototype.join\<close>, \<open>numberToString\<close> is the text a template
  literal gives an integer such as \<open>Date.now()\<close>, and \<open>toLowerCase\<close> is the string
  method on the ASCII range (a character outside it is left alone).
\<close>

definition dquote :: char where
  "dquote = CHR 0x22"

definition newline :: char where
  "newline = CHR 0x0A"

fun join :: "string \<Rightarrow> string list \<Rightarrow> string" where
  "join sep [] = []"
| "join sep [x] = x"
| "join sep (x # y # ys) = x @ sep @ join sep (y # ys)"

function decimal :: "nat \<Rightarrow> string" where
  "decimal n =
     (if n < 10 then [char_of (48 + n)]
      else decimal (n div 10) @ [char_of (48 + n mod 10)])"
  by pat_completeness auto
termination
  by (relation "measure (\<lambda>n. n)") auto

declare decimal.simps [simp del]

definition numberToString :: "int \<Rightarrow> string" where
  "numberToString n = (if n < 0 then CHR ''-'' # decimal (nat (- n)) else decimal (nat n))"

definition lowerChar :: "char \<Rightarrow> char" where
  "lowerChar c =
     (let n = of_char c :: nat in if 65 \<le> n \<and> n \<le> 90 then char_of (n + 32) else c)"

definition toLowerCase :: "string \<Rightarrow> string" where
  "toLowerCase s = map lowerChar s"

text \<open>
  The text of a remote reply comes from outside the application and may hold any
  character, so it is a list of UTF-16 code units, each a number. \<open>codeUnits\<close>
  gives the code units of a string of the application, a character standing for
  the code unit of its code. \<open>isWhiteSpace\<close> is the white space and the line
  terminators of ECMAScript, the code units that \<open>String.prototype.trim\<close> removes:
  TAB, LF, VT, FF, CR, space, U+00A0, U+1680, U+2000 to U+200A, U+2028, U+2029,
  U+202F, U+205F, U+3000 and U+FEFF. \<open>trim\<close> removes them at both ends.
\<close>

definition codeUnits :: "string \<Rightarrow> nat list" where
  "codeUnits s = map of_char s"

definition isWhiteSpace :: "nat \<Rightarrow> bool" where
  "isWhiteSpace u =
     ((9 \<le> u \<and> u \<le> 13) \<or> u = 32 \<or> u = 160 \<or> u = 5760 \<or> (8192 \<le> u \<and> u \<le> 8202)
      \<or> u = 8232 \<or> u = 8233 \<or> u = 8239 \<or> u = 8287 \<or> u = 12288 \<or> u = 65279)"

definition trim :: "nat list \<Rightarrow> nat list" where
  "trim s = rev (dropWhile isWhiteSpace (rev (dropWhile isWhiteSpace s)))"

text \<open>\<open>name.replace(/"/g, '""')\<close>: every double quote is written twice.\<close>

definition doubleQuotes :: "string \<Rightarrow> string" where
  "doubleQuotes s = concat (map (\<lambda>c. if c = dquote then [dquote, dquote] else [c]) s)"

text \<open>
  \<open>String.prototype.localeCompare\<close> belongs to the browser, not to this
  repository: the handlers below take it as the parameter \<open>lc\<close>.
\<close>

text \<open>
  Modelled from the spec: the collation that \<open>localeCompare\<close> stands for is
  missing from the sources; the specification describes the order as
  "case-sensitive lexicographic". \<open>lexicographicCompare\<close> is that order on
  character codes, used where a concrete comparator is needed to run an example.
\<close>

fun lexicographicCompare :: "string \<Rightarrow> string \<Rightarrow> int" where
  "lexicographicCompare [] [] = 0"
| "lexicographicCompare [] (y # ys) = - 1"
| "lexicographicCompare (x # xs) [] = 1"
| "lexicographicCompare (x # xs) (y # ys) =
     (if (of_char x :: nat) < of_char y then - 1
      else if (of_char y :: nat) < of_char x then 1
      else lexicographicCompare xs ys)"

section \<open>Application state (App.tsx)\<close>

text \<open>
  The React state of \<open>App\<close> and \<open>TeacherDashboard\<close> that the handlers below read
  and write. A handler reads the values of the last render and queues its writes;
  the writes of one handler are applied in the order the handler issues them, and a
  functional updater \<open>setX(prev => ...)\<close> receives the value left by the writes
  queued before it. Each handler is therefore a function from the state before the
  event to the state after it.
\<close>

record IdentifyingFace =
  identifying_face :: DetectedFace
  suggestion :: "string option"
  identifying_image :: string

record File =
  file_name :: string
  file_type :: string

record AppState =
  classrooms :: "Classroom list"
  attendanceReports :: "AttendanceReport list"
  selectedClassroomId :: "string option"
  activeReport :: "AttendanceReport option"
  periodName :: string
  classroomPhoto :: "File option"
  isLoading :: bool
  error :: "string option"
  identifyingFace :: "IdentifyingFace option"

text \<open>\<open>selectedClassroom\<close> and \<open>students\<close>, the two memoised values of the dashboard.\<close>

definition selectedClassroom :: "AppState \<Rightarrow> Classroom option" where
  "selectedClassroom st =
     (case selectedClassroomId st of
        None \<Rightarrow> None
      | Some cid \<Rightarrow> find (\<lambda>c. classroom_id c = cid) (classrooms st))"

definition roster :: "AppState \<Rightarrow> Student list" where
  "roster st = (case selectedClassroom st of None \<Rightarrow> [] | Some c \<Rightarrow> students c)"

subsection \<open>handleStatusChange\<close>

definition flipStatus :: "AttendanceStatus \<Rightarrow> AttendanceStatus" where
  "flipStatus s = (if s = Present then Absent else Present)"

definition toggleRecord :: "string \<Rightarrow> AttendanceRecord \<Rightarrow> AttendanceRecord" where
  "toggleRecord sid record =
     (if studentId record = sid then record\<lparr>status := flipStatus (status record)\<rparr>
      else record)"

definition toggleReport :: "string \<Rightarrow> string \<Rightarrow> AttendanceReport \<Rightarrow> AttendanceReport" where
  "toggleReport sid rid report =
     (if report_id report = rid
      then report\<lparr>attendance := map (toggleRecord sid) (attendance report)\<rparr>
      else report)"

text \<open>
  The updater maps over the reports. Inside the map, each report whose id matches
  is also written to \<open>activeReport\<close> when the active report has that id, so the
  last matching report is the one that stays.
\<close>

definition handleStatusChange :: "string \<Rightarrow> string \<Rightarrow> AppState \<Rightarrow> AppState" where
  "handleStatusChange sid rid st =
     (let newReports = map (toggleReport sid rid) (attendanceReports st);
          hits = filter (\<lambda>r. report_id r = rid) newReports
      in st\<lparr>attendanceReports := newReports,
             activeReport :=
               (case activeReport st of
                  None \<Rightarrow> None
                | Some ar \<Rightarrow>
                    if report_id ar = rid \<and> hits \<noteq> [] then Some (last hits)
                    else Some ar)\<rparr>)"

subsection \<open>handleDeleteClassroom\<close>

text \<open>\<open>confirmed\<close> is the answer of \<open>window.confirm\<close>.\<close>

definition handleDeleteClassroom :: "bool \<Rightarrow> string \<Rightarrow> AppState \<Rightarrow> AppState" where
  "handleDeleteClassroom confirmed cid st =
     (if confirmed then
        let st1 = st\<lparr>classrooms := filter (\<lambda>c. classroom_id c \<noteq> cid) (classrooms st),
                      attendanceReports :=
                        filter (\<lambda>r. classroomId r \<noteq> cid) (attendanceReports st)\<rparr>
        in if selectedClassroomId st = Some cid
           then st1\<lparr>selectedClassroomId := None, activeReport := None\<rparr>
           else st1
      else st)"

subsection \<open>handleTakeAttendance\<close>

text \<open>The attendance list: one record per student of the roster, sorted by name.\<close>

definition studentRecord :: "string set \<Rightarrow> Student \<Rightarrow> AttendanceRecord" where
  "studentRecord presentNames student =
     \<lparr>studentId = student_id student, record_name = student_name student,
      rollNumber = student_rollNumber student,
      status = (if student_name student \<in> presentNames then Present else Absent)\<rparr>"

definition finalAttendance ::
  "(string \<Rightarrow> string \<Rightarrow> int) \<Rightarrow> Student list \<Rightarrow> GeminiAttendanceResponse
     \<Rightarrow> AttendanceRecord list" where
  "finalAttendance lc studs result =
     (let presentNames = set (map face_name (present result))
      in arraySort (\<lambda>a b. lc (record_name a) (record_name b))
           (map (studentRecord presentNames) studs))"

text \<open>The updater that puts a new report into the history.\<close>

definition insertReport :: "AttendanceReport \<Rightarrow> AttendanceReport list \<Rightarrow> AttendanceReport list" where
  "insertReport newReport prev = arraySort (\<lambda>a b. date b - date a) (newReport # prev)"

text \<open>
  The order of the history: each report is at least as recent as (\<open>newestFirst\<close>),
  or more recent than (\<open>strictlyNewestFirst\<close>), every report after it.
  \<open>insertReports\<close> is a sequence of insertions, one updater after the other.
\<close>

definition newestFirst :: "AttendanceReport list \<Rightarrow> bool" where
  "newestFirst rs = sorted_wrt (\<lambda>a b. date b \<le> date a) rs"

definition strictlyNewestFirst :: "AttendanceReport list \<Rightarrow> bool" where
  "strictlyNewestFirst rs = sorted_wrt (\<lambda>a b. date b < date a) rs"

definition insertReports ::
  "AttendanceReport list \<Rightarrow> AttendanceReport list \<Rightarrow> AttendanceReport list" where
  "insertReports news prev = foldl (\<lambda>history r. insertReport r history) prev news"

definition rosterError :: string where
  "rosterError =
     ''Please select a classroom, provide a period name, and ensure the roster has students.''"

text \<open>
  The two awaited calls and the clock are inputs. \<open>recognition\<close> is the outcome of
  \<open>takeAttendanceFromImages\<close> and \<open>dataUrl\<close> that of \<open>fileToDataURL\<close>: \<open>Inl m\<close>
  when the call throws, \<open>m\<close> being the message the \<open>catch\<close> clause shows.
  \<open>nowId\<close> is the reading of \<open>Date.now()\<close> and \<open>nowDate\<close> that of \<open>new Date()\<close>.
\<close>

definition handleTakeAttendance ::
  "(string \<Rightarrow> string \<Rightarrow> int) \<Rightarrow> int \<Rightarrow> int \<Rightarrow> string + GeminiAttendanceResponse
     \<Rightarrow> string + string \<Rightarrow> File option \<Rightarrow> string \<Rightarrow> AppState \<Rightarrow> AppState" where
  "handleTakeAttendance lc nowId nowDate recognition dataUrl imageFile period' st =
     (case (imageFile, selectedClassroom st) of
        (Some file, Some classroom) \<Rightarrow>
          if roster st = [] \<or> period' = [] then st\<lparr>error := Some rosterError\<rparr>
          else
            let st1 = st\<lparr>isLoading := True, error := None, activeReport := None\<rparr>
            in (case recognition of
                  Inl m \<Rightarrow> st1\<lparr>error := Some m, isLoading := False\<rparr>
                | Inr result \<Rightarrow>
                    (case dataUrl of
                       Inl m \<Rightarrow> st1\<lparr>error := Some m, isLoading := False\<rparr>
                     | Inr url \<Rightarrow>
                         let newReport =
                               \<lparr>report_id = ''report-'' @ numberToString nowId,
                                classroomId = classroom_id classroom,
                                classroomName = classroom_name classroom,
                                date = nowDate, period = period',
                                attendance = finalAttendance lc (roster st) result,
                                capturedImageAsDataUrl = url,
                                detectedFaces = present result @ unknown result,
                                engagementSummary = response_engagementSummary result\<rparr>
                         in st1\<lparr>attendanceReports := insertReport newReport (attendanceReports st1),
                                activeReport := Some newReport, periodName := [],
                                classroomPhoto := None, isLoading := False\<rparr>))
      | _ \<Rightarrow> st\<lparr>error := Some rosterError\<rparr>)"

subsection \<open>handleSuggestionConfirm\<close>

definition relabelFace :: "string \<Rightarrow> string \<Rightarrow> DetectedFace \<Rightarrow> DetectedFace" where
  "relabelFace faceId newName f = (if face_id f = faceId then f\<lparr>face_name := newName\<rparr> else f)"

text \<open>
  The handler reads \<open>students\<close> and \<open>activeReport\<close> of the last render. It calls
  \<open>handleStatusChange\<close>, then builds \<open>updatedReport\<close> from the \<open>activeReport\<close> it
  read, writes it to \<open>activeReport\<close>, and queues a second updater that puts
  \<open>updatedReport\<close> in place of every report with the same id.
\<close>

definition handleSuggestionConfirm :: "string \<Rightarrow> string \<Rightarrow> AppState \<Rightarrow> AppState" where
  "handleSuggestionConfirm suggestedName faceId st =
     (case (find (\<lambda>s. student_name s = suggestedName) (roster st), activeReport st) of
        (Some student, Some ar) \<Rightarrow>
          let st1 = handleStatusChange (student_id student) (report_id ar) st;
              updatedReport =
                ar\<lparr>detectedFaces :=
                     map (relabelFace faceId (student_name student)) (detectedFaces ar)\<rparr>;
              st2 = st1\<lparr>activeReport := Some updatedReport\<rparr>;
              st3 = st2\<lparr>attendanceReports :=
                          map (\<lambda>r. if report_id r = report_id ar then updatedReport else r)
                            (attendanceReports st2)\<rparr>
          in st3\<lparr>identifyingFace := None\<rparr>
      | _ \<Rightarrow> st\<lparr>identifyingFace := None\<rparr>)"

text \<open>
  \<open>handleSuggestionConfirm\<close> takes the write to \<open>activeReport\<close> that sits inside
  the updater of \<open>handleStatusChange\<close> as made when the updater is queued. React
  may also run that updater only at the next render; its write to \<open>activeReport\<close>
  then comes after the handler's own, and the toggled report of the history,
  which is not relabelled, is the one that stays active. The report history is
  the same in both orders, as the two updaters are queued in the same order.
  \<open>handleSuggestionConfirmDeferred\<close> is the handler in that second order.
\<close>

definition handleSuggestionConfirmDeferred :: "string \<Rightarrow> string \<Rightarrow> AppState \<Rightarrow> AppState" where
  "handleSuggestionConfirmDeferred suggestedName faceId st =
     (case (find (\<lambda>s. student_name s = suggestedName) (roster st), activeReport st) of
        (Some student, Some ar) \<Rightarrow>
          let updatedReport =
                ar\<lparr>detectedFaces :=
                     map (relabelFace faceId (student_name student)) (detectedFaces ar)\<rparr>;
              st1 = st\<lparr>activeReport := Some updatedReport\<rparr>;
              st2 = handleStatusChange (student_id student) (report_id ar) st1;
              st3 = st2\<lparr>attendanceReports :=
                          map (\<lambda>r. if report_id r = report_id ar then updatedReport else r)
                            (attendanceReports st2)\<rparr>
          in st3\<lparr>identifyingFace := None\<rparr>
      | _ \<Rightarrow> st\<lparr>identifyingFace := None\<rparr>)"

subsection \<open>handleDownloadCSV\<close>

definition statusString :: "AttendanceStatus \<Rightarrow> string" where
  "statusString s = (case s of Present \<Rightarrow> ''Present'' | Absent \<Rightarrow> ''Absent'')"

definition csvHeaders :: "string list" where
  "csvHeaders = [''Roll Number'', ''Student Name'', ''Status'']"

definition csvRow :: "AttendanceRecord \<Rightarrow> string" where
  "csvRow record =
     join '','' [rollNumber record, dquote # doubleQuotes (record_name record) @ [dquote],
                statusString (status record)]"

text \<open>
  \<open>attendance.sort(...)\<close> sorts the array it is called on, in place, and the rows are
  read from it afterwards. The function returns the array as the call leaves it,
  together with the text of the file (none when the array is empty). The download
  link and its file name do not enter the text.
\<close>

definition handleDownloadCSV ::
  "(string \<Rightarrow> string \<Rightarrow> int) \<Rightarrow> AttendanceRecord list \<Rightarrow> AttendanceRecord list \<times> string option" where
  "handleDownloadCSV lc attendance' =
     (if attendance' = [] then (attendance', None)
      else
        let sorted' = arraySort (\<lambda>a b. lc (rollNumber a) (rollNumber b)) attendance'
        in (sorted', Some (join [newline] (join '','' csvHeaders # map csvRow sorted'))))"

text \<open>
  \<open>AttendanceResultDisplay\<close> is rendered with \<open>attendance={activeReport.attendance}\<close>,
  and the active report is the very object held in the report history: it is set
  from a report of the history, or together with the report put there. The array
  sorted by the export is therefore the array of that report, in both places.
\<close>

definition clickDownloadCSV ::
  "(string \<Rightarrow> string \<Rightarrow> int) \<Rightarrow> AppState \<Rightarrow> AppState \<times> string option" where
  "clickDownloadCSV lc st =
     (case activeReport st of
        None \<Rightarrow> (st, None)
      | Some ar \<Rightarrow>
          let (arr, csv) = handleDownloadCSV lc (attendance ar)
          in (st\<lparr>activeReport := Some (ar\<lparr>attendance := arr\<rparr>),
                 attendanceReports :=
                   map (\<lambda>r. if r = ar then r\<lparr>attendance := arr\<rparr> else r)
                     (attendanceReports st)\<rparr>, csv))"

section \<open>Recognition adapter (geminiService.ts)\<close>

text \<open>
  The request of \<open>identifyUnknownFace\<close>: the cropped image and the prompt. The
  remote model is the parameter \<open>generateContent\<close>, which answers a request with
  the text of the response, as code units, or \<open>None\<close> when the call (or reading
  its text) throws. The function returns the requests it has sent together with
  its result: \<open>Inl\<close> the message of the error it throws, \<open>Inr\<close> the code units
  of the string it resolves to.
\<close>

record GenerateContentRequest =
  request_model :: string
  request_mimeType :: string
  request_data :: string
  request_text :: string

definition identifyPrompt :: "string \<Rightarrow> string" where
  "identifyPrompt studentNames =
     [newline]
     @ ''    From the following list of absent students, who is the most likely match for the person in this image?''
     @ [newline]
     @ ''    Student List: '' @ studentNames @ ''.'' @ [newline]
     @ ''    '' @ [newline]
     @ ''    Carefully analyze the image. If you can make a high-confidence guess, respond with ONLY the student's full name.''
     @ [newline]
     @ ''    If you are not confident, respond with the exact string '' @ [dquote]
     @ ''Unable to identify'' @ [dquote] @ ''.'' @ [newline]
     @ ''    Do not add any other text or explanation.'' @ [newline]
     @ ''  ''"

definition noAbsentStudents :: string where
  "noAbsentStudents = ''No absent students to match against.''"

definition identifyUnknownFace ::
  "(GenerateContentRequest \<Rightarrow> nat list option) \<Rightarrow> string \<Rightarrow> string \<Rightarrow> Student list
     \<Rightarrow> GenerateContentRequest list \<times> (string + nat list)" where
  "identifyUnknownFace generateContent croppedImageBase64 mimeType absentStudents =
     (if length absentStudents = 0 then ([], Inr (codeUnits noAbsentStudents))
      else
        let studentNames = join '', '' (map student_name absentStudents);
            request = \<lparr>request_model = ''gemini-2.5-pro'', request_mimeType = mimeType,
                       request_data = croppedImageBase64,
                       request_text = identifyPrompt studentNames\<rparr>
        in ([request],
            (case generateContent request of
               None \<Rightarrow> Inl ''AI identification failed.''
             | Some text \<Rightarrow> Inr (trim text))))"

section \<open>Login (LoginPage.handleSubmit)\<close>

datatype UserRole = RoleTeacher | RoleStudent

record LoggedInUser =
  user_role :: UserRole
  user_studentId :: "string option"
  user_classroomId :: "string option"

definition invalidCredentials :: string where
  "invalidCredentials = ''Invalid credentials. Please check your details and try again.''"

text \<open>The loop over the classrooms: the first classroom with a matching student logs in.\<close>

fun studentLogin :: "Classroom list \<Rightarrow> string \<Rightarrow> string \<Rightarrow> LoggedInUser option" where
  "studentLogin [] libraryId password = None"
| "studentLogin (classroom # rest) libraryId password =
     (case find (\<lambda>s. student_rollNumber s = libraryId \<and> student_password s = Some password)
             (students classroom) of
        Some student \<Rightarrow>
          Some \<lparr>user_role = RoleStudent, user_studentId = Some (student_id student),
                user_classroomId = Some (classroom_id classroom)\<rparr>
      | None \<Rightarrow> studentLogin rest libraryId password)"

text \<open>
  \<open>role\<close> is the value of the select box: \<open>None\<close> stands for the empty string of
  the placeholder. The result is \<open>Inr\<close> the user passed to \<open>onLogin\<close>, or \<open>Inl\<close>
  the error message shown; no session is created in that case.
\<close>

definition handleSubmit ::
  "Classroom list \<Rightarrow> UserRole option \<Rightarrow> string \<Rightarrow> string \<Rightarrow> string + LoggedInUser" where
  "handleSubmit cls role libraryId password =
     (case role of
        None \<Rightarrow> Inl ''Please select your role.''
      | Some RoleTeacher \<Rightarrow>
          if toLowerCase libraryId = ''teacher'' \<and> password = ''password123''
          then Inr \<lparr>user_role = RoleTeacher, user_studentId = None, user_classroomId = None\<rparr>
          else Inl invalidCredentials
      | Some RoleStudent \<Rightarrow>
          (case studentLogin cls libraryId password of
             Some user \<Rightarrow> Inr user
           | None \<Rightarrow> Inl invalidCredentials))"

section \<open>Sample data\<close>

text \<open>
  A classroom of two students whose order by name differs from their order by
  roll number, one capture of it, and a report of another classroom.
\<close>

definition ann :: Student where
  "ann = \<lparr>student_id = ''student-1'', student_name = ''Ann'', student_rollNumber = ''2'',
          student_password = Some ''pw-ann'', imageBase64 = ''QQ=='',
          imageType = ''image/png'', imageUrl = ''blob:ann''\<rparr>"

definition bob :: Student where
  "bob = \<lparr>student_id = ''student-2'', student_name = ''Bob'', student_rollNumber = ''1'',
          student_password = Some ''pw-bob'', imageBase64 = ''Qg=='',
          imageType = ''image/png'', imageUrl = ''blob:bob''\<rparr>"

definition classA :: Classroom where
  "classA = \<lparr>classroom_id = ''class-1'', classroom_name = ''Class A'', students = [ann, bob]\<rparr>"

definition classB :: Classroom where
  "classB = \<lparr>classroom_id = ''class-2'', classroom_name = ''Class B'', students = []\<rparr>"

definition faceAnn :: DetectedFace where
  "faceAnn = \<lparr>face_id = ''face-Ann-0.25'', face_name = ''Ann'',
              face_box = \<lparr>box_top = 0, box_right = 1 / 2, box_bottom = 1 / 2, box_left = 0\<rparr>\<rparr>"

definition faceUnknown :: DetectedFace where
  "faceUnknown = \<lparr>face_id = ''face-unknown-0.75'', face_name = ''Unknown'',
                  face_box = \<lparr>box_top = 0, box_right = 1, box_bottom = 1 / 2, box_left = 1 / 2\<rparr>\<rparr>"

definition sampleResponse :: GeminiAttendanceResponse where
  "sampleResponse = \<lparr>present = [faceAnn], unknown = [faceUnknown], absent = [''Bob''],
                     response_engagementSummary = ''Attentive.''\<rparr>"

definition annRecord :: AttendanceRecord where
  "annRecord = \<lparr>studentId = ''student-1'', record_name = ''Ann'', rollNumber = ''2'',
                status = Present\<rparr>"

definition bobRecord :: AttendanceRecord where
  "bobRecord = \<lparr>studentId = ''student-2'', record_name = ''Bob'', rollNumber = ''1'',
                status = Absent\<rparr>"

definition reportA :: AttendanceReport where
  "reportA = \<lparr>report_id = ''report-1000'', classroomId = ''class-1'',
              classroomName = ''Class A'', date = 1000, period = ''Math'',
              attendance = [annRecord, bobRecord],
              capturedImageAsDataUrl = ''data:image/png;base64,AA=='',
              detectedFaces = [faceAnn, faceUnknown], engagementSummary = ''Attentive.''\<rparr>"

definition reportB :: AttendanceReport where
  "reportB = \<lparr>report_id = ''report-2000'', classroomId = ''class-2'',
              classroomName = ''Class B'', date = 2000, period = ''Art'',
              attendance = [], capturedImageAsDataUrl = ''data:image/png;base64,AQ=='',
              detectedFaces = [], engagementSummary = ''Empty room.''\<rparr>"

definition sampleState :: AppState where
  "sampleState = \<lparr>classrooms = [classA, classB], attendanceReports = [reportB, reportA],
                  selectedClassroomId = Some ''class-1'', activeReport = Some reportA,
                  periodName = [], classroomPhoto = None, isLoading = False, error = None,
                  identifyingFace = None\<rparr>"

text \<open>A photo, a second capture at the instant of the first, and the rows of the CSV example.\<close>

definition samplePhoto :: File where
  "samplePhoto = \<lparr>file_name = ''room.png'', file_type = ''image/png''\<rparr>"

definition reportTie :: AttendanceReport where
  "reportTie = \<lparr>report_id = ''report-1001'', classroomId = ''class-1'',
                classroomName = ''Class A'', date = 1000, period = ''Physics'',
                attendance = [annRecord, bobRecord],
                capturedImageAsDataUrl = ''data:image/png;base64,Ag=='',
                detectedFaces = [], engagementSummary = ''Quiet.''\<rparr>"

definition csvExample :: "AttendanceRecord list" where
  "csvExample =
     [\<lparr>studentId = ''student-2'', record_name = ''Bob'', rollNumber = ''2'', status = Present\<rparr>,
      \<lparr>studentId = ''student-1'', record_name = ''Ann, Jr.'', rollNumber = ''1'',
       status = Absent\<rparr>]"

text \<open>A remote model that answers with a sentence instead of a bare name.\<close>

definition chattyModel :: "GenerateContentRequest \<Rightarrow> nat list option" where
  "chattyModel request = Some (codeUnits ''Probably Bob'')"

text \<open>
  A remote model that answers with the bare name, after a byte order mark and a
  space and before a no-break space and a line feed.
\<close>

definition plainModel :: "GenerateContentRequest \<Rightarrow> nat list option" where
  "plainModel request = Some ([65279, 32] @ codeUnits ''Bob'' @ [160, 10])"

text \<open>A record whose name holds double quotes: \<^verbatim>\<open>Cy "CJ" Lee\<close>.\<close>

definition csvQuoteExample :: "AttendanceRecord list" where
  "csvQuoteExample =
     [\<lparr>studentId = ''student-3'',
       record_name = ''Cy '' @ [CHR 0x22] @ ''CJ'' @ [CHR 0x22] @ '' Lee'',
       rollNumber = ''3'', status = Present\<rparr>]"

section \<open>Evaluating the sample data\<close>

lemmas sample_defs = ann_def bob_def classA_def classB_def faceAnn_def faceUnknown_def
  sampleResponse_def annRecord_def bobRecord_def reportA_def reportB_def sampleState_def

section \<open>Status toggle: involution and frame\<close>

lemma flipStatus_twice: "flipStatus (flipStatus s) = s"
  by (cases s) (simp_all add: flipStatus_def)

lemma flipStatus_changes: "flipStatus s \<noteq> s"
  by (cases s) (simp_all add: flipStatus_def)

lemma toggleRecord_twice: "toggleRecord sid (toggleRecord sid r) = r"
  by (simp add: toggleRecord_def flipStatus_twice)

lemma toggleReport_twice: "toggleReport sid rid (toggleReport sid rid r) = r"
  by (simp add: toggleReport_def toggleRecord_twice comp_def)

lemma toggleReport_id: "report_id (toggleReport sid rid r) = report_id r"
  by (simp add: toggleReport_def)

lemma map_toggleRecord_unique:
  assumes "distinct (map studentId rs)" and "j < length rs" and "studentId (rs ! j) = sid"
  shows "map (toggleRecord sid) rs = rs[j := (rs ! j)\<lparr>status := flipStatus (status (rs ! j))\<rparr>]"
proof (rule nth_equalityI)
  show "length (map (toggleRecord sid) rs) = length (rs[j := (rs ! j)\<lparr>status := flipStatus (status (rs ! j))\<rparr>])"
    by simp
next
  fix k assume "k < length (map (toggleRecord sid) rs)"
  then have k: "k < length rs" by simp
  show "map (toggleRecord sid) rs ! k = rs[j := (rs ! j)\<lparr>status := flipStatus (status (rs ! j))\<rparr>] ! k"
  proof (cases "k = j")
    case True
    with assms k show ?thesis by (simp add: toggleRecord_def)
  next
    case False
    from assms k False have "studentId (rs ! k) \<noteq> sid"
      by (metis distinct_conv_nth length_map nth_map)
    with k False show ?thesis by (simp add: toggleRecord_def)
  qed
qed

lemma map_toggleReport_unique:
  assumes "distinct (map report_id rs)" and "i < length rs" and "report_id (rs ! i) = rid"
  shows "map (toggleReport sid rid) rs =
         rs[i := (rs ! i)\<lparr>attendance := map (toggleRecord sid) (attendance (rs ! i))\<rparr>]"
proof (rule nth_equalityI)
  show "length (map (toggleReport sid rid) rs) =
        length (rs[i := (rs ! i)\<lparr>attendance := map (toggleRecord sid) (attendance (rs ! i))\<rparr>])"
    by simp
next
  fix k assume "k < length (map (toggleReport sid rid) rs)"
  then have k: "k < length rs" by simp
  show "map (toggleReport sid rid) rs ! k =
        rs[i := (rs ! i)\<lparr>attendance := map (toggleRecord sid) (attendance (rs ! i))\<rparr>] ! k"
  proof (cases "k = i")
    case True
    with assms k show ?thesis by (simp add: toggleReport_def)
  next
    case False
    from assms k False have "report_id (rs ! k) \<noteq> rid"
      by (metis distinct_conv_nth length_map nth_map)
    with k False show ?thesis by (simp add: toggleReport_def)
  qed
qed

lemma attendanceReports_handleStatusChange:
  "attendanceReports (handleStatusChange sid rid st) =
   map (toggleReport sid rid) (attendanceReports st)"
  by (simp add: handleStatusChange_def Let_def)

text \<open>
  Claim C3. Let the report ids of the history be pairwise distinct, let the report at
  position \<open>i\<close> have id \<open>rid\<close>, let the student ids of its attendance list be
  pairwise distinct, and let the record at position \<open>j\<close> belong to student
  \<open>sid\<close>. Then toggling \<open>(sid, rid)\<close> twice gives back the report history, and
  toggling once gives the history in which exactly the record \<open>j\<close> of exactly the
  report \<open>i\<close> has changed, in its status only, to the other status; every other
  record and every other report is as before, and so is the roster.
\<close>

theorem handleStatusChange_involution_frame:
  assumes "distinct (map report_id (attendanceReports st))"
    and "i < length (attendanceReports st)"
    and "report_id (attendanceReports st ! i) = rid"
    and "distinct (map studentId (attendance (attendanceReports st ! i)))"
    and "j < length (attendance (attendanceReports st ! i))"
    and "studentId (attendance (attendanceReports st ! i) ! j) = sid"
  shows "attendanceReports (handleStatusChange sid rid (handleStatusChange sid rid st))
           = attendanceReports st
       \<and> attendanceReports (handleStatusChange sid rid st)
           = (attendanceReports st)
               [i := (attendanceReports st ! i)
                  \<lparr>attendance := (attendance (attendanceReports st ! i))
                     [j := (attendance (attendanceReports st ! i) ! j)
                        \<lparr>status := flipStatus
                           (status (attendance (attendanceReports st ! i) ! j))\<rparr>]\<rparr>]
       \<and> flipStatus (status (attendance (attendanceReports st ! i) ! j))
           \<noteq> status (attendance (attendanceReports st ! i) ! j)
       \<and> classrooms (handleStatusChange sid rid st) = classrooms st"
proof -
  have twice: "attendanceReports (handleStatusChange sid rid (handleStatusChange sid rid st))
                = attendanceReports st"
    by (simp add: attendanceReports_handleStatusChange comp_def toggleReport_twice)
  have once: "attendanceReports (handleStatusChange sid rid st)
           = (attendanceReports st)
               [i := (attendanceReports st ! i)
                  \<lparr>attendance := (attendance (attendanceReports st ! i))
                     [j := (attendance (attendanceReports st ! i) ! j)
                        \<lparr>status := flipStatus
                           (status (attendance (attendanceReports st ! i) ! j))\<rparr>]\<rparr>]"
    unfolding attendanceReports_handleStatusChange
    by (simp only: map_toggleReport_unique [OF assms(1,2,3)]
          map_toggleRecord_unique [OF assms(4,5,6)])
  have cls: "classrooms (handleStatusChange sid rid st) = classrooms st"
    by (simp add: handleStatusChange_def Let_def)
  from twice once cls flipStatus_changes show ?thesis by blast
qed

theorem handleStatusChange_involution_frame_witness:
  "distinct (map report_id (attendanceReports sampleState))
   \<and> 1 < length (attendanceReports sampleState)
   \<and> report_id (attendanceReports sampleState ! 1) = ''report-1000''
   \<and> distinct (map studentId (attendance (attendanceReports sampleState ! 1)))
   \<and> 1 < length (attendance (attendanceReports sampleState ! 1))
   \<and> studentId (attendance (attendanceReports sampleState ! 1) ! 1) = ''student-2''
   \<and> attendanceReports
        (handleStatusChange ''student-2'' ''report-1000''
           (handleStatusChange ''student-2'' ''report-1000'' sampleState))
       = [reportB, reportA]
   \<and> attendanceReports (handleStatusChange ''student-2'' ''report-1000'' sampleState)
       = [reportB, reportA\<lparr>attendance := [annRecord, bobRecord\<lparr>status := Present\<rparr>]\<rparr>]"
proof -
  have h1: "distinct (map report_id (attendanceReports sampleState))"
    by (simp add: sample_defs)
  have h2: "1 < length (attendanceReports sampleState)"
    by (simp add: sample_defs)
  have h3: "report_id (attendanceReports sampleState ! 1) = ''report-1000''"
    by (simp add: sample_defs)
  have h4: "distinct (map studentId (attendance (attendanceReports sampleState ! 1)))"
    by (simp add: sample_defs)
  have h5: "1 < length (attendance (attendanceReports sampleState ! 1))"
    by (simp add: sample_defs)
  have h6: "studentId (attendance (attendanceReports sampleState ! 1) ! 1) = ''student-2''"
    by (simp add: sample_defs)
  from handleStatusChange_involution_frame [OF h1 h2 h3 h4 h5 h6] h1 h2 h3 h4 h5 h6
  show ?thesis
    by (simp add: sample_defs flipStatus_def)
qed

section \<open>Deleting a classroom\<close>

text \<open>
  Claim C7. Once the teacher has confirmed the dialog, deleting the classroom
  \<open>cid\<close> leaves in the report history exactly the reports whose \<open>classroomId\<close>
  differs from \<open>cid\<close>, in their old order, and in the classroom list exactly the
  classrooms whose id differs from \<open>cid\<close>: every report of the deleted classroom is
  gone, no other report is, and the classroom itself is gone.
\<close>

theorem handleDeleteClassroom_cascade:
  assumes "confirmed"
  shows "attendanceReports (handleDeleteClassroom confirmed cid st)
           = filter (\<lambda>r. classroomId r \<noteq> cid) (attendanceReports st)
       \<and> (\<forall>r. r \<in> set (attendanceReports (handleDeleteClassroom confirmed cid st))
              \<longleftrightarrow> r \<in> set (attendanceReports st) \<and> classroomId r \<noteq> cid)
       \<and> classrooms (handleDeleteClassroom confirmed cid st)
           = filter (\<lambda>c. classroom_id c \<noteq> cid) (classrooms st)
       \<and> (\<forall>c. c \<in> set (classrooms (handleDeleteClassroom confirmed cid st))
              \<longleftrightarrow> c \<in> set (classrooms st) \<and> classroom_id c \<noteq> cid)"
  using assms by (auto simp add: handleDeleteClassroom_def Let_def)

theorem handleDeleteClassroom_cascade_witness:
  "attendanceReports sampleState = [reportB, reportA]
   \<and> classroomId reportA = ''class-1'' \<and> classroomId reportB \<noteq> ''class-1''
   \<and> attendanceReports (handleDeleteClassroom True ''class-1'' sampleState) = [reportB]
   \<and> classrooms (handleDeleteClassroom True ''class-1'' sampleState) = [classB]"
  using handleDeleteClassroom_cascade [of True "''class-1''" sampleState]
  by (simp add: sample_defs)

section \<open>Confirming a suggested name\<close>

text \<open>
  Claim C8. When no student of the current roster has the confirmed name, the
  handler changes nothing but the open dialog: the report history, and with it the
  attendance list and the detected faces of the target report, and the active
  report are what they were.
\<close>

theorem handleSuggestionConfirm_no_match:
  assumes "\<forall>s \<in> set (roster st). student_name s \<noteq> confirmedName"
  shows "handleSuggestionConfirm confirmedName faceId st = st\<lparr>identifyingFace := None\<rparr>
       \<and> attendanceReports (handleSuggestionConfirm confirmedName faceId st)
           = attendanceReports st
       \<and> activeReport (handleSuggestionConfirm confirmedName faceId st) = activeReport st"
proof -
  from assms have "find (\<lambda>s. student_name s = confirmedName) (roster st) = None"
    by (simp add: find_None_iff)
  then show ?thesis by (simp add: handleSuggestionConfirm_def)
qed

theorem handleSuggestionConfirm_no_match_witness:
  "''Cid'' \<notin> set (map student_name (roster sampleState))
   \<and> attendanceReports (handleSuggestionConfirm ''Cid'' ''face-unknown-0.75'' sampleState)
       = [reportB, reportA]
   \<and> activeReport (handleSuggestionConfirm ''Cid'' ''face-unknown-0.75'' sampleState)
       = Some reportA"
proof -
  have h: "\<forall>s \<in> set (roster sampleState). student_name s \<noteq> ''Cid''"
    by (simp add: roster_def selectedClassroom_def sample_defs)
  have n: "''Cid'' \<notin> set (map student_name (roster sampleState))"
    by (simp add: roster_def selectedClassroom_def sample_defs)
  from handleSuggestionConfirm_no_match [OF h, of "''face-unknown-0.75''"] n
  show ?thesis by (simp add: sampleState_def)
qed

text \<open>
  When a student of the roster has the name and a report is active, the second
  updater overwrites what the first one did: the history that results is the old
  one with the active report, relabelled, in place of every report of its id. The
  attendance of that report is the attendance the handler read before the toggle.
\<close>

lemma handleSuggestionConfirm_reports:
  assumes "find (\<lambda>s. student_name s = suggestedName) (roster st) = Some student"
    and "activeReport st = Some ar"
  shows "attendanceReports (handleSuggestionConfirm suggestedName faceId st)
         = map (\<lambda>r. if report_id r = report_id ar
                     then ar\<lparr>detectedFaces :=
                            map (relabelFace faceId (student_name student)) (detectedFaces ar)\<rparr>
                     else r)
             (attendanceReports st)"
  using assms
  by (simp add: handleSuggestionConfirm_def Let_def attendanceReports_handleStatusChange
        comp_def toggleReport_def cong: if_cong)

text \<open>
  The order in which React runs the first updater does not change the report
  history, nor what happens when no student matches; it changes which report is
  left active.
\<close>

lemma handleSuggestionConfirmDeferred_reports:
  "attendanceReports (handleSuggestionConfirmDeferred suggestedName faceId st)
   = attendanceReports (handleSuggestionConfirm suggestedName faceId st)"
  by (simp add: handleSuggestionConfirmDeferred_def handleSuggestionConfirm_def
        attendanceReports_handleStatusChange Let_def split: option.splits)

lemma handleSuggestionConfirmDeferred_no_match:
  "find (\<lambda>s. student_name s = suggestedName) (roster st) = None
   \<Longrightarrow> handleSuggestionConfirmDeferred suggestedName faceId st
       = handleSuggestionConfirm suggestedName faceId st"
  by (simp add: handleSuggestionConfirmDeferred_def handleSuggestionConfirm_def)

lemma handleSuggestionConfirm_active_sample:
  "activeReport (handleSuggestionConfirm ''Bob'' ''face-unknown-0.75'' sampleState)
     = Some (reportA\<lparr>detectedFaces := [faceAnn, faceUnknown\<lparr>face_name := ''Bob''\<rparr>]\<rparr>)
   \<and> activeReport (handleSuggestionConfirmDeferred ''Bob'' ''face-unknown-0.75'' sampleState)
     = Some (reportA\<lparr>attendance := [annRecord, bobRecord\<lparr>status := Present\<rparr>]\<rparr>)"
  by (simp add: handleSuggestionConfirm_def handleSuggestionConfirmDeferred_def
        handleStatusChange_def toggleReport_def toggleRecord_def flipStatus_def
        relabelFace_def roster_def selectedClassroom_def Let_def sample_defs)

text \<open>
  Claim C1, at the sample state: Bob is absent in the active report and the face
  \<open>face-unknown-0.75\<close> is unknown. Confirming Bob for that face relabels the face
  in the report history and leaves Bob absent there, while the status toggle alone
  would have marked him present.
\<close>

theorem handleSuggestionConfirm_loses_toggle:
  "attendanceReports (handleSuggestionConfirm ''Bob'' ''face-unknown-0.75'' sampleState)
     = [reportB, reportA\<lparr>detectedFaces := [faceAnn, faceUnknown\<lparr>face_name := ''Bob''\<rparr>]\<rparr>]
   \<and> attendance (reportA\<lparr>detectedFaces := [faceAnn, faceUnknown\<lparr>face_name := ''Bob''\<rparr>]\<rparr>)
     = [annRecord, bobRecord]
   \<and> status bobRecord = Absent
   \<and> attendanceReports (handleStatusChange ''student-2'' ''report-1000'' sampleState)
     = [reportB, reportA\<lparr>attendance := [annRecord, bobRecord\<lparr>status := Present\<rparr>]\<rparr>]"
  by (simp add: handleSuggestionConfirm_def handleStatusChange_def toggleReport_def
        toggleRecord_def flipStatus_def relabelFace_def roster_def selectedClassroom_def
        Let_def sample_defs)

section \<open>What the CSV export does to the report\<close>

text \<open>
  The status toggle keeps everything of a report but the status of its records,
  and relabelling keeps the id and the box of a face.
\<close>

lemma toggleRecord_frame:
  "studentId (toggleRecord sid r) = studentId r
   \<and> record_name (toggleRecord sid r) = record_name r
   \<and> rollNumber (toggleRecord sid r) = rollNumber r"
  by (simp add: toggleRecord_def)

lemma toggleReport_frame:
  "toggleReport sid rid r = r\<lparr>attendance := attendance (toggleReport sid rid r)\<rparr>
   \<and> map studentId (attendance (toggleReport sid rid r)) = map studentId (attendance r)
   \<and> map record_name (attendance (toggleReport sid rid r)) = map record_name (attendance r)
   \<and> map rollNumber (attendance (toggleReport sid rid r)) = map rollNumber (attendance r)"
  by (simp add: toggleReport_def toggleRecord_frame comp_def)

lemma relabelFace_frame:
  "face_id (relabelFace faceId newName f) = face_id f
   \<and> face_box (relabelFace faceId newName f) = face_box f"
  by (simp add: relabelFace_def)

text \<open>
  Claim C5, at the sample state: the attendance list of the active report is in
  the order Ann, Bob. The export sorts that array by roll number, so after it the
  report holds the list in the order Bob, Ann, in the history and as active report.
\<close>

theorem handleDownloadCSV_reorders_attendance:
  "attendance reportA = [annRecord, bobRecord]
   \<and> fst (handleDownloadCSV lexicographicCompare (attendance reportA)) = [bobRecord, annRecord]
   \<and> attendanceReports (fst (clickDownloadCSV lexicographicCompare sampleState))
       = [reportB, reportA\<lparr>attendance := [bobRecord, annRecord]\<rparr>]
   \<and> activeReport (fst (clickDownloadCSV lexicographicCompare sampleState))
       = Some (reportA\<lparr>attendance := [bobRecord, annRecord]\<rparr>)"
  by (simp add: clickDownloadCSV_def handleDownloadCSV_def Let_def sample_defs)

section \<open>Sorting\<close>

lemma mset_sortInsert: "mset (sortInsert cmp a xs) = add_mset a (mset xs)"
  by (induction xs) simp_all

lemma mset_arraySort: "mset (arraySort cmp xs) = mset xs"
  by (induction xs) (simp_all add: mset_sortInsert)

lemma set_arraySort: "set (arraySort cmp xs) = set xs"
  using mset_arraySort [of cmp xs] by (metis set_mset_mset)

lemma length_arraySort: "length (arraySort cmp xs) = length xs"
  using mset_arraySort [of cmp xs] by (metis size_mset)

lemma sorted_sortInsert:
  assumes total: "\<And>x y. cmp x y \<le> 0 \<or> cmp y x \<le> 0"
    and trans: "\<And>x y z. cmp x y \<le> 0 \<Longrightarrow> cmp y z \<le> 0 \<Longrightarrow> cmp x z \<le> 0"
    and "sorted_wrt (\<lambda>x y. cmp x y \<le> 0) xs"
  shows "sorted_wrt (\<lambda>x y. cmp x y \<le> 0) (sortInsert cmp a xs)"
  using assms(3)
proof (induction xs)
  case Nil
  then show ?case by simp
next
  case (Cons b bs)
  show ?case
  proof (cases "cmp a b \<le> 0")
    case True
    with Cons.prems trans show ?thesis by auto
  next
    case False
    with total have ba: "cmp b a \<le> 0" by blast
    from Cons.prems have "sorted_wrt (\<lambda>x y. cmp x y \<le> 0) bs" by simp
    then have "sorted_wrt (\<lambda>x y. cmp x y \<le> 0) (sortInsert cmp a bs)" by (rule Cons.IH)
    moreover have "\<forall>y \<in> set (sortInsert cmp a bs). cmp b y \<le> 0"
    proof
      fix y assume "y \<in> set (sortInsert cmp a bs)"
      then have "y \<in># mset (sortInsert cmp a bs)" by simp
      then have "y = a \<or> y \<in> set bs" by (simp add: mset_sortInsert)
      with ba Cons.prems show "cmp b y \<le> 0" by auto
    qed
    ultimately show ?thesis using False by simp
  qed
qed

lemma sorted_arraySort:
  assumes total: "\<And>x y. cmp x y \<le> 0 \<or> cmp y x \<le> 0"
    and trans: "\<And>x y z. cmp x y \<le> 0 \<Longrightarrow> cmp y z \<le> 0 \<Longrightarrow> cmp x z \<le> 0"
  shows "sorted_wrt (\<lambda>x y. cmp x y \<le> 0) (arraySort cmp xs)"
proof (induction xs)
  case Nil
  show ?case by simp
next
  case (Cons a as)
  from sorted_sortInsert [of cmp "arraySort cmp as" a, OF total trans Cons.IH]
  show ?case by simp
qed

section \<open>Building a report\<close>

lemma set_insertReport: "set (insertReport r prev) = insert r (set prev)"
  unfolding insertReport_def by (simp only: set_arraySort) simp

lemma mset_finalAttendance:
  "mset (finalAttendance lc studs result)
   = image_mset (studentRecord (set (map face_name (present result)))) (mset studs)"
  by (simp add: finalAttendance_def Let_def mset_arraySort)

lemma studentRecord_fields:
  "studentId (studentRecord names s) = student_id s"
  "record_name (studentRecord names s) = student_name s"
  "rollNumber (studentRecord names s) = student_rollNumber s"
  "status (studentRecord names s) = Present \<longleftrightarrow> student_name s \<in> names"
  by (simp_all add: studentRecord_def)

lemma handleTakeAttendance_success:
  assumes "imageFile = Some file" and "selectedClassroom st = Some classroom"
    and "roster st \<noteq> []" and "period' \<noteq> []"
    and "recognition = Inr result" and "dataUrl = Inr url"
  shows "handleTakeAttendance lc nowId nowDate recognition dataUrl imageFile period' st
         = (let newReport =
                  \<lparr>report_id = ''report-'' @ numberToString nowId,
                   classroomId = classroom_id classroom,
                   classroomName = classroom_name classroom,
                   date = nowDate, period = period',
                   attendance = finalAttendance lc (roster st) result,
                   capturedImageAsDataUrl = url,
                   detectedFaces = present result @ unknown result,
                   engagementSummary = response_engagementSummary result\<rparr>
            in st\<lparr>isLoading := False, error := None,
                   attendanceReports := insertReport newReport (attendanceReports st),
                   activeReport := Some newReport, periodName := [],
                   classroomPhoto := None\<rparr>)"
  using assms by (simp add: handleTakeAttendance_def Let_def)

text \<open>
  Claim C2. When a photo, a selected classroom, a roster that is not empty and a
  period are given and both awaited calls succeed, the handler makes a report
  active and puts it into the history; its attendance list has the length of the
  roster and is, up to order, the roster with one record made of each student:
  the record of a student has the student's id, name and roll number, and is
  Present exactly when the student's name is among the names of the present
  faces of the recognition result, Absent exactly when it is not. So the student
  ids of the records are those of the roster, every student has such a record,
  and when the ids of the roster are distinct the ids of the records are, and the
  record that carries a student's id is the record of that student.
\<close>

theorem handleTakeAttendance_one_record_per_student:
  assumes "imageFile = Some file" and "selectedClassroom st = Some classroom"
    and "roster st \<noteq> []" and "period' \<noteq> []"
    and "recognition = Inr result" and "dataUrl = Inr url"
  shows "\<exists>report.
           activeReport
             (handleTakeAttendance lc nowId nowDate recognition dataUrl imageFile period' st)
             = Some report
         \<and> report \<in> set (attendanceReports
             (handleTakeAttendance lc nowId nowDate recognition dataUrl imageFile period' st))
         \<and> length (attendance report) = length (roster st)
         \<and> mset (attendance report)
             = image_mset
                 (\<lambda>s. \<lparr>studentId = student_id s, record_name = student_name s,
                        rollNumber = student_rollNumber s,
                        status = (if student_name s \<in> set (map face_name (present result))
                                  then Present else Absent)\<rparr>)
                 (mset (roster st))
         \<and> mset (map studentId (attendance report)) = mset (map student_id (roster st))
         \<and> (distinct (map student_id (roster st))
              \<longrightarrow> distinct (map studentId (attendance report)))
         \<and> (\<forall>r \<in> set (attendance report).
               (status r = Present \<longleftrightarrow> record_name r \<in> set (map face_name (present result)))
             \<and> (status r = Absent \<longleftrightarrow> record_name r \<notin> set (map face_name (present result))))
         \<and> (\<forall>s \<in> set (roster st). \<exists>r \<in> set (attendance report).
               studentId r = student_id s \<and> record_name r = student_name s
             \<and> rollNumber r = student_rollNumber s
             \<and> (status r = Present \<longleftrightarrow> student_name s \<in> set (map face_name (present result)))
             \<and> (status r = Absent \<longleftrightarrow> student_name s \<notin> set (map face_name (present result))))
         \<and> (distinct (map student_id (roster st))
              \<longrightarrow> (\<forall>s \<in> set (roster st). \<forall>r \<in> set (attendance report).
                     studentId r = student_id s
                     \<longrightarrow> record_name r = student_name s
                       \<and> rollNumber r = student_rollNumber s
                       \<and> (status r = Present
                            \<longleftrightarrow> student_name s \<in> set (map face_name (present result)))
                       \<and> (status r = Absent
                            \<longleftrightarrow> student_name s \<notin> set (map face_name (present result)))))"
proof -
  let ?names = "set (map face_name (present result))"
  let ?rec = "\<lambda>s. \<lparr>studentId = student_id s, record_name = student_name s,
                     rollNumber = student_rollNumber s,
                     status = (if student_name s \<in> ?names then Present else Absent)\<rparr>"
  let ?att = "finalAttendance lc (roster st) result"
  let ?report = "\<lparr>report_id = ''report-'' @ numberToString nowId,
                   classroomId = classroom_id classroom,
                   classroomName = classroom_name classroom,
                   date = nowDate, period = period',
                   attendance = ?att,
                   capturedImageAsDataUrl = url,
                   detectedFaces = present result @ unknown result,
                   engagementSummary = response_engagementSummary result\<rparr>"
  let ?st' = "handleTakeAttendance lc nowId nowDate recognition dataUrl imageFile period' st"
  note eq = handleTakeAttendance_success [OF assms, of lc nowId nowDate]
  have active: "activeReport ?st' = Some ?report"
    by (simp add: eq Let_def)
  have member: "?report \<in> set (attendanceReports ?st')"
    by (simp add: eq Let_def set_insertReport)
  have recdef: "studentRecord ?names = ?rec"
    by (rule ext) (simp add: studentRecord_def)
  have ms: "mset ?att = image_mset ?rec (mset (roster st))"
    by (simp only: mset_finalAttendance recdef)
  have len: "length ?att = length (roster st)"
  proof -
    have "size (mset ?att) = size (image_mset ?rec (mset (roster st)))"
      by (simp only: ms)
    then show ?thesis by simp
  qed
  have ids: "mset (map studentId ?att) = mset (map student_id (roster st))"
  proof -
    have "mset (map studentId ?att) = image_mset studentId (mset ?att)" by simp
    also have "\<dots> = image_mset (\<lambda>s. studentId (?rec s)) (mset (roster st))"
      by (simp only: ms image_mset.compositionality comp_def)
    also have "\<dots> = mset (map student_id (roster st))"
      by simp
    finally show ?thesis .
  qed
  have dist: "distinct (map student_id (roster st)) \<longrightarrow> distinct (map studentId ?att)"
    using ids by (metis mset_eq_imp_distinct_iff)
  have origin: "\<exists>s \<in> set (roster st). r = ?rec s" if "r \<in> set ?att" for r
  proof -
    from that have "r \<in># mset ?att" by simp
    then show ?thesis unfolding ms by auto
  qed
  have made: "?rec s \<in> set ?att" if "s \<in> set (roster st)" for s
  proof -
    from that have "?rec s \<in># image_mset ?rec (mset (roster st))" by simp
    then have "?rec s \<in># mset ?att" by (simp only: ms)
    then show ?thesis by simp
  qed
  have stat: "\<forall>r \<in> set ?att.
               (status r = Present \<longleftrightarrow> record_name r \<in> ?names)
             \<and> (status r = Absent \<longleftrightarrow> record_name r \<notin> ?names)"
  proof
    fix r assume ra: "r \<in> set ?att"
    from origin [OF ra] obtain s where "s \<in> set (roster st)" and "r = ?rec s"
      by (rule bexE)
    then show "(status r = Present \<longleftrightarrow> record_name r \<in> ?names)
             \<and> (status r = Absent \<longleftrightarrow> record_name r \<notin> ?names)"
      by simp
  qed
  have each: "\<forall>s \<in> set (roster st). \<exists>r \<in> set ?att.
               studentId r = student_id s \<and> record_name r = student_name s
             \<and> rollNumber r = student_rollNumber s
             \<and> (status r = Present \<longleftrightarrow> student_name s \<in> ?names)
             \<and> (status r = Absent \<longleftrightarrow> student_name s \<notin> ?names)"
  proof
    fix s assume "s \<in> set (roster st)"
    then have "?rec s \<in> set ?att" by (rule made)
    then show "\<exists>r \<in> set ?att.
               studentId r = student_id s \<and> record_name r = student_name s
             \<and> rollNumber r = student_rollNumber s
             \<and> (status r = Present \<longleftrightarrow> student_name s \<in> ?names)
             \<and> (status r = Absent \<longleftrightarrow> student_name s \<notin> ?names)"
      by (rule rev_bexI) simp
  qed
  have own: "distinct (map student_id (roster st))
              \<longrightarrow> (\<forall>s \<in> set (roster st). \<forall>r \<in> set ?att.
                     studentId r = student_id s
                     \<longrightarrow> record_name r = student_name s
                       \<and> rollNumber r = student_rollNumber s
                       \<and> (status r = Present \<longleftrightarrow> student_name s \<in> ?names)
                       \<and> (status r = Absent \<longleftrightarrow> student_name s \<notin> ?names))"
  proof (intro impI ballI)
    fix s r
    assume d: "distinct (map student_id (roster st))"
      and s: "s \<in> set (roster st)" and r: "r \<in> set ?att"
      and i: "studentId r = student_id s"
    from origin [OF r] obtain s' where s': "s' \<in> set (roster st)" and rs: "r = ?rec s'"
      by (rule bexE)
    from rs i have e: "student_id s' = student_id s" by simp
    from d have inj: "inj_on student_id (set (roster st))"
      by (simp add: distinct_map)
    have "s' = s" by (rule inj_onD [OF inj e s' s])
    with rs show "record_name r = student_name s
                       \<and> rollNumber r = student_rollNumber s
                       \<and> (status r = Present \<longleftrightarrow> student_name s \<in> ?names)
                       \<and> (status r = Absent \<longleftrightarrow> student_name s \<notin> ?names)"
      by simp
  qed
  define report where "report = ?report"
  have att: "attendance report = ?att" by (simp add: report_def)
  have f1: "activeReport ?st' = Some report" using active by (simp only: report_def)
  have f2: "report \<in> set (attendanceReports ?st')" using member by (simp only: report_def)
  show ?thesis
    by (rule exI [of _ report])
      (rule conjI [OF f1 conjI [OF f2 conjI [OF len [folded att] conjI [OF ms [folded att]
         conjI [OF ids [folded att] conjI [OF dist [folded att] conjI [OF stat [folded att]
         conjI [OF each [folded att] own [folded att]]]]]]]]])
qed

theorem handleTakeAttendance_one_record_per_student_witness:
  "Some samplePhoto = Some samplePhoto
   \<and> selectedClassroom sampleState = Some classA
   \<and> roster sampleState = [ann, bob] \<and> roster sampleState \<noteq> [] \<and> ''Math'' \<noteq> []
   \<and> distinct (map student_id (roster sampleState))
   \<and> map face_name (present sampleResponse) = [''Ann'']
   \<and> (\<exists>report.
         activeReport
           (handleTakeAttendance lexicographicCompare 3000 3001 (Inr sampleResponse)
              (Inr ''data:image/png;base64,Aw=='') (Some samplePhoto) ''Math'' sampleState)
           = Some report
       \<and> attendance report = [annRecord, bobRecord]
       \<and> length (attendance report) = 2
       \<and> distinct (map studentId (attendance report))
       \<and> (\<forall>s \<in> set (roster sampleState). \<forall>r \<in> set (attendance report).
             studentId r = student_id s
             \<longrightarrow> record_name r = student_name s
               \<and> rollNumber r = student_rollNumber s
               \<and> (status r = Present \<longleftrightarrow> student_name s \<in> set [''Ann''])))"
proof -
  let ?st' = "handleTakeAttendance lexicographicCompare 3000 3001 (Inr sampleResponse)
                (Inr ''data:image/png;base64,Aw=='') (Some samplePhoto) ''Math'' sampleState"
  have h2: "selectedClassroom sampleState = Some classA"
    by (simp add: selectedClassroom_def sample_defs)
  have ro: "roster sampleState = [ann, bob]"
    by (simp add: roster_def selectedClassroom_def sample_defs)
  have h3: "roster sampleState \<noteq> []"
    by (simp add: ro)
  have h4: "''Math'' \<noteq> []" by simp
  have d: "distinct (map student_id (roster sampleState))"
    by (simp add: ro ann_def bob_def)
  have p: "map face_name (present sampleResponse) = [''Ann'']"
    by (simp add: sampleResponse_def faceAnn_def)
  have att: "finalAttendance lexicographicCompare [ann, bob] sampleResponse
             = [annRecord, bobRecord]"
    by (simp add: finalAttendance_def studentRecord_def Let_def sample_defs)
  from handleTakeAttendance_one_record_per_student
         [OF refl h2 h3 h4 refl refl, of lexicographicCompare 3000 3001 sampleResponse
            "''data:image/png;base64,Aw==''" samplePhoto]
  obtain report where
    a: "activeReport ?st' = Some report"
    and l: "length (attendance report) = length (roster sampleState)"
    and di: "distinct (map student_id (roster sampleState))
       \<longrightarrow> distinct (map studentId (attendance report))"
    and own: "distinct (map student_id (roster sampleState))
              \<longrightarrow> (\<forall>s \<in> set (roster sampleState). \<forall>r \<in> set (attendance report).
                     studentId r = student_id s
                     \<longrightarrow> record_name r = student_name s
                       \<and> rollNumber r = student_rollNumber s
                       \<and> (status r = Present
                            \<longleftrightarrow> student_name s \<in> set (map face_name (present sampleResponse)))
                       \<and> (status r = Absent
                            \<longleftrightarrow> student_name s \<notin> set (map face_name (present sampleResponse))))"
    by (elim exE conjE) (rule that; assumption)
  have "attendance (the (activeReport ?st')) = [annRecord, bobRecord]"
    by (simp add: handleTakeAttendance_success [OF refl h2 h3 h4 refl refl] Let_def ro att)
  with a have at: "attendance report = [annRecord, bobRecord]" by simp
  from l ro have l2: "length (attendance report) = 2" by simp
  from di d have di2: "distinct (map studentId (attendance report))" by (rule mp)
  from own d p have own2: "\<forall>s \<in> set (roster sampleState). \<forall>r \<in> set (attendance report).
             studentId r = student_id s
             \<longrightarrow> record_name r = student_name s
               \<and> rollNumber r = student_rollNumber s
               \<and> (status r = Present \<longleftrightarrow> student_name s \<in> set [''Ann''])"
    by simp
  have ex: "\<exists>report.
         activeReport ?st' = Some report
       \<and> attendance report = [annRecord, bobRecord]
       \<and> length (attendance report) = 2
       \<and> distinct (map studentId (attendance report))
       \<and> (\<forall>s \<in> set (roster sampleState). \<forall>r \<in> set (attendance report).
             studentId r = student_id s
             \<longrightarrow> record_name r = student_name s
               \<and> rollNumber r = student_rollNumber s
               \<and> (status r = Present \<longleftrightarrow> student_name s \<in> set [''Ann'']))"
    by (rule exI [of _ report]) (intro conjI a at l2 di2 own2)
  show ?thesis
    by (rule conjI [OF refl conjI [OF h2 conjI [OF ro conjI [OF h3 conjI [OF h4
          conjI [OF d conjI [OF p ex]]]]]]])
qed

section \<open>Order of the report history\<close>

lemma strict_of_distinct:
  "sorted_wrt (\<lambda>a b. date b \<le> date a) rs \<Longrightarrow> distinct (map date rs)
   \<Longrightarrow> sorted_wrt (\<lambda>a b. date b < date a) (rs :: AttendanceReport list)"
proof (induction rs)
  case Nil
  show ?case by simp
next
  case (Cons a rs)
  have "date x < date a" if "x \<in> set rs" for x
  proof -
    from that Cons.prems(1) have "date x \<le> date a" by simp
    moreover from that Cons.prems(2) have "date x \<noteq> date a"
      by (auto simp add: image_iff)
    ultimately show ?thesis by simp
  qed
  with Cons show ?case by simp
qed

lemma newestFirst_insertReport: "newestFirst (insertReport r prev)"
proof -
  have "sorted_wrt (\<lambda>x y. date y - date x \<le> 0)
          (arraySort (\<lambda>a b. date b - date a) (r # prev))"
    by (rule sorted_arraySort) auto
  then show ?thesis
    by (simp add: newestFirst_def insertReport_def del: arraySort.simps)
qed

lemma mset_insertReport: "mset (insertReport r prev) = add_mset r (mset prev)"
  unfolding insertReport_def by (simp only: mset_arraySort) simp

lemma newestFirst_insertReports:
  "news \<noteq> [] \<Longrightarrow> newestFirst (insertReports news prev)"
proof (induction news rule: rev_induct)
  case Nil
  then show ?case by simp
next
  case (snoc r news)
  show ?case by (simp add: insertReports_def newestFirst_insertReport)
qed

text \<open>
  Claim C6, as the code has it. After every insertion, whatever the history was,
  the history holds the new report and the old ones and is ordered newest first:
  no report is older than a report after it. So it is after each insertion of any
  sequence that is not empty. When the instants of the new report and the old ones
  are pairwise distinct, each report is more recent than every report after it.
\<close>

theorem insertReport_newestFirst:
  "newestFirst (insertReport r prev)
   \<and> mset (insertReport r prev) = add_mset r (mset prev)
   \<and> (news \<noteq> [] \<longrightarrow> newestFirst (insertReports news prev))
   \<and> (distinct (map date (r # prev)) \<longrightarrow> strictlyNewestFirst (insertReport r prev))"
proof -
  have "strictlyNewestFirst (insertReport r prev)" if d: "distinct (map date (r # prev))"
  proof -
    have "mset (map date (insertReport r prev)) = mset (map date (r # prev))"
      by (simp add: mset_insertReport)
    with d have "distinct (map date (insertReport r prev))"
      by (metis mset_eq_imp_distinct_iff)
    with newestFirst_insertReport [of r prev] show ?thesis
      unfolding newestFirst_def strictlyNewestFirst_def by (rule strict_of_distinct)
  qed
  with newestFirst_insertReport mset_insertReport newestFirst_insertReports
  show ?thesis by blast
qed

theorem insertReport_newestFirst_witness:
  "[reportA, reportB] \<noteq> []
   \<and> distinct (map date [reportB, reportA])
   \<and> insertReport reportB [reportA] = [reportB, reportA]
   \<and> insertReports [reportA, reportB] [] = [reportB, reportA]
   \<and> newestFirst (insertReports [reportA, reportB] [])
   \<and> strictlyNewestFirst (insertReport reportB [reportA])"
proof -
  have d: "distinct (map date [reportB, reportA])" by (simp add: sample_defs)
  have e1: "insertReport reportB [reportA] = [reportB, reportA]"
    by (simp add: insertReport_def sample_defs)
  have e2: "insertReports [reportA, reportB] [] = [reportB, reportA]"
    by (simp add: insertReports_def insertReport_def sample_defs)
  from insertReport_newestFirst [of reportB "[reportA]" "[reportA, reportB]"] d e1 e2
  show ?thesis by simp
qed

text \<open>
  Claim C6 as stated fails when two captures carry the same instant: the history
  holds both, and neither is more recent than the other.
\<close>

theorem insertReport_tie_counterexample:
  "insertReport reportTie (insertReport reportA []) = [reportTie, reportA]
   \<and> date reportTie = date reportA
   \<and> \<not> strictlyNewestFirst (insertReport reportTie (insertReport reportA []))"
  by (simp add: insertReport_def strictlyNewestFirst_def reportTie_def sample_defs)

section \<open>The sample comparator is a total preorder\<close>

lemma lexicographicCompare_total:
  "lexicographicCompare x y \<le> 0 \<or> lexicographicCompare y x \<le> 0"
  by (induction x y rule: lexicographicCompare.induct) auto

lemma lexicographicCompare_Nil: "lexicographicCompare [] z \<le> 0"
  by (cases z) simp_all

lemma lexicographicCompare_trans:
  "lexicographicCompare x y \<le> 0 \<Longrightarrow> lexicographicCompare y z \<le> 0
   \<Longrightarrow> lexicographicCompare x z \<le> 0"
proof (induction x y arbitrary: z rule: lexicographicCompare.induct)
  case 1
  show ?case by (rule lexicographicCompare_Nil)
next
  case (2 y ys)
  show ?case by (rule lexicographicCompare_Nil)
next
  case (3 x xs)
  then show ?case by simp
next
  case (4 x xs y ys)
  show ?case
  proof (cases z)
    case Nil
    with "4.prems" show ?thesis by simp
  next
    case (Cons c cs)
    with "4.prems" "4.IH" [of cs] show ?thesis
      by (auto split: if_splits)
  qed
qed

section \<open>CSV export\<close>

lemma csvRow_text:
  "csvRow record = rollNumber record @ '','' @ CHR 0x22 # doubleQuotes (record_name record)
                     @ CHR 0x22 # '','' @ statusString (status record)"
  by (simp add: csvRow_def dquote_def)

lemma doubleQuotes_Nil: "doubleQuotes [] = []"
  by (simp add: doubleQuotes_def)

lemma doubleQuotes_Cons:
  "doubleQuotes (c # s)
   = (if c = CHR 0x22 then CHR 0x22 # CHR 0x22 # doubleQuotes s else c # doubleQuotes s)"
  by (simp add: doubleQuotes_def dquote_def)

lemma doubleQuotes_others:
  "filter (\<lambda>c. c \<noteq> CHR 0x22) (doubleQuotes s) = filter (\<lambda>c. c \<noteq> CHR 0x22) s"
  by (induction s) (simp_all add: doubleQuotes_Nil doubleQuotes_Cons)

lemma doubleQuotes_count:
  "length (filter (\<lambda>c. c = CHR 0x22) (doubleQuotes s))
   = 2 * length (filter (\<lambda>c. c = CHR 0x22) s)"
  by (induction s) (simp_all add: doubleQuotes_Nil doubleQuotes_Cons)

lemma handleDownloadCSV_nonempty:
  "attendance' \<noteq> []
   \<Longrightarrow> handleDownloadCSV lc attendance'
       = (arraySort (\<lambda>a b. lc (rollNumber a) (rollNumber b)) attendance',
          Some (join [CHR 0x0A]
                  (''Roll Number,Student Name,Status''
                   # map csvRow
                       (arraySort (\<lambda>a b. lc (rollNumber a) (rollNumber b)) attendance'))))"
  by (simp add: handleDownloadCSV_def Let_def csvHeaders_def newline_def)

lemma csvExample_content:
  "0 < lc ''2'' ''1''
   \<Longrightarrow> snd (handleDownloadCSV lc csvExample)
       = Some (''Roll Number,Student Name,Status'' @ [CHR 0x0A]
               @ ''1,'' @ [CHR 0x22] @ ''Ann, Jr.'' @ [CHR 0x22] @ '',Absent'' @ [CHR 0x0A]
               @ ''2,'' @ [CHR 0x22] @ ''Bob'' @ [CHR 0x22] @ '',Present'')"
  by (simp add: handleDownloadCSV_def Let_def csvHeaders_def csvExample_def csvRow_def
        doubleQuotes_def statusString_def dquote_def newline_def)

lemma csvQuoteExample_content:
  "snd (handleDownloadCSV lc csvQuoteExample)
   = Some (''Roll Number,Student Name,Status'' @ [CHR 0x0A]
           @ ''3,'' @ [CHR 0x22] @ ''Cy '' @ [CHR 0x22, CHR 0x22] @ ''CJ''
           @ [CHR 0x22, CHR 0x22] @ '' Lee'' @ [CHR 0x22] @ '',Present'')"
  by (simp add: handleDownloadCSV_def Let_def csvHeaders_def csvQuoteExample_def csvRow_def
        doubleQuotes_def statusString_def dquote_def newline_def)

text \<open>
  Claim C4, as the code has it. For an attendance list that is not empty the
  export writes the header row and then one row per record, the rows joined by
  line feeds and the records taken in the order the sort by roll number leaves
  them in: a permutation of the list, ascending by roll number whenever the
  comparator is a total preorder. A row is the roll number, the name and the
  status (Present or Absent), separated by commas, and the name is always
  wrapped in double quotes, with every double quote inside it written twice and
  every other character kept. For the example of Bob (roll 2, Present) and
  Ann, Jr. (roll 1, Absent), with a comparator that puts roll 1 before roll 2,
  the rows are \<^verbatim>\<open>1,"Ann, Jr.",Absent\<close> and \<^verbatim>\<open>2,"Bob",Present\<close>; for
  the name \<^verbatim>\<open>Cy "CJ" Lee\<close> with roll 3 the row is
  \<^verbatim>\<open>3,"Cy ""CJ"" Lee",Present\<close>.
\<close>

theorem handleDownloadCSV_rows:
  assumes "attendance' \<noteq> []"
  shows "\<exists>sorted'.
           handleDownloadCSV lc attendance'
             = (sorted',
                Some (join [CHR 0x0A] (''Roll Number,Student Name,Status'' # map csvRow sorted')))
         \<and> mset sorted' = mset attendance'
         \<and> ((\<forall>x y. lc x y \<le> 0 \<or> lc y x \<le> 0)
              \<and> (\<forall>x y z. lc x y \<le> 0 \<and> lc y z \<le> 0 \<longrightarrow> lc x z \<le> 0)
             \<longrightarrow> sorted_wrt (\<lambda>a b. lc (rollNumber a) (rollNumber b) \<le> 0) sorted')
         \<and> (\<forall>record.
               csvRow record
                 = rollNumber record @ '','' @ CHR 0x22 # doubleQuotes (record_name record)
                     @ CHR 0x22 # '','' @ statusString (status record))
         \<and> statusString Present = ''Present'' \<and> statusString Absent = ''Absent''
         \<and> doubleQuotes [] = []
         \<and> (\<forall>c s. doubleQuotes (c # s)
                    = (if c = CHR 0x22 then CHR 0x22 # CHR 0x22 # doubleQuotes s
                       else c # doubleQuotes s))
         \<and> (\<forall>s. length (filter (\<lambda>c. c = CHR 0x22) (doubleQuotes s))
                    = 2 * length (filter (\<lambda>c. c = CHR 0x22) s)
                \<and> filter (\<lambda>c. c \<noteq> CHR 0x22) (doubleQuotes s)
                    = filter (\<lambda>c. c \<noteq> CHR 0x22) s)
         \<and> (\<forall>sep x. join sep [] = [] \<and> join sep [x] = x)
         \<and> (\<forall>sep x y ys. join sep (x # y # ys) = x @ sep @ join sep (y # ys))
         \<and> (0 < lc ''2'' ''1''
             \<longrightarrow> snd (handleDownloadCSV lc csvExample)
                   = Some (''Roll Number,Student Name,Status'' @ [CHR 0x0A]
                           @ ''1,'' @ [CHR 0x22] @ ''Ann, Jr.'' @ [CHR 0x22] @ '',Absent''
                           @ [CHR 0x0A]
                           @ ''2,'' @ [CHR 0x22] @ ''Bob'' @ [CHR 0x22] @ '',Present''))
         \<and> snd (handleDownloadCSV lc csvQuoteExample)
             = Some (''Roll Number,Student Name,Status'' @ [CHR 0x0A]
                     @ ''3,'' @ [CHR 0x22] @ ''Cy '' @ [CHR 0x22, CHR 0x22] @ ''CJ''
                     @ [CHR 0x22, CHR 0x22] @ '' Lee'' @ [CHR 0x22] @ '',Present'')"
proof -
  let ?cmp = "\<lambda>a b. lc (rollNumber a) (rollNumber b)"
  let ?sorted = "arraySort ?cmp attendance'"
  have eq: "handleDownloadCSV lc attendance'
             = (?sorted,
                Some (join [CHR 0x0A] (''Roll Number,Student Name,Status'' # map csvRow ?sorted)))"
    using assms by (rule handleDownloadCSV_nonempty)
  have ms: "mset ?sorted = mset attendance'"
    by (rule mset_arraySort)
  have srt: "sorted_wrt (\<lambda>a b. lc (rollNumber a) (rollNumber b) \<le> 0) ?sorted"
    if "(\<forall>x y. lc x y \<le> 0 \<or> lc y x \<le> 0)
        \<and> (\<forall>x y z. lc x y \<le> 0 \<and> lc y z \<le> 0 \<longrightarrow> lc x z \<le> 0)"
  proof (rule sorted_arraySort [of ?cmp])
    fix x y :: AttendanceRecord
    from that show "lc (rollNumber x) (rollNumber y) \<le> 0 \<or> lc (rollNumber y) (rollNumber x) \<le> 0"
      by blast
  next
    fix x y z :: AttendanceRecord
    assume "lc (rollNumber x) (rollNumber y) \<le> 0" "lc (rollNumber y) (rollNumber z) \<le> 0"
    with that show "lc (rollNumber x) (rollNumber z) \<le> 0" by blast
  qed
  have srt': "(\<forall>x y. lc x y \<le> 0 \<or> lc y x \<le> 0)
              \<and> (\<forall>x y z. lc x y \<le> 0 \<and> lc y z \<le> 0 \<longrightarrow> lc x z \<le> 0)
             \<longrightarrow> sorted_wrt (\<lambda>a b. lc (rollNumber a) (rollNumber b) \<le> 0) ?sorted"
    using srt by (rule impI)
  have csv': "\<forall>record.
               csvRow record
                 = rollNumber record @ '','' @ CHR 0x22 # doubleQuotes (record_name record)
                     @ CHR 0x22 # '','' @ statusString (status record)"
    using csvRow_text by (rule allI)
  have st1: "statusString Present = ''Present''" by (simp add: statusString_def)
  have st2: "statusString Absent = ''Absent''" by (simp add: statusString_def)
  have dq: "\<forall>c s. doubleQuotes (c # s)
                    = (if c = CHR 0x22 then CHR 0x22 # CHR 0x22 # doubleQuotes s
                       else c # doubleQuotes s)"
    by (intro allI) (rule doubleQuotes_Cons)
  have dc: "\<forall>s. length (filter (\<lambda>c. c = CHR 0x22) (doubleQuotes s))
                    = 2 * length (filter (\<lambda>c. c = CHR 0x22) s)
                \<and> filter (\<lambda>c. c \<noteq> CHR 0x22) (doubleQuotes s)
                    = filter (\<lambda>c. c \<noteq> CHR 0x22) s"
    by (intro allI conjI) (rule doubleQuotes_count, rule doubleQuotes_others)
  have j1: "\<forall>sep x. join sep [] = [] \<and> join sep [x] = x" by simp
  have j2: "\<forall>sep x y ys. join sep (x # y # ys) = x @ sep @ join sep (y # ys)" by simp
  have ex': "0 < lc ''2'' ''1''
             \<longrightarrow> snd (handleDownloadCSV lc csvExample)
                   = Some (''Roll Number,Student Name,Status'' @ [CHR 0x0A]
                           @ ''1,'' @ [CHR 0x22] @ ''Ann, Jr.'' @ [CHR 0x22] @ '',Absent''
                           @ [CHR 0x0A]
                           @ ''2,'' @ [CHR 0x22] @ ''Bob'' @ [CHR 0x22] @ '',Present'')"
    using csvExample_content by (rule impI)
  show ?thesis
    by (rule exI [of _ ?sorted])
      (rule conjI [OF eq conjI [OF ms conjI [OF srt' conjI [OF csv' conjI [OF st1
         conjI [OF st2 conjI [OF doubleQuotes_Nil conjI [OF dq conjI [OF dc conjI [OF j1
         conjI [OF j2 conjI [OF ex' csvQuoteExample_content]]]]]]]]]]]])
qed

theorem handleDownloadCSV_rows_witness:
  "csvExample \<noteq> []
   \<and> 0 < lexicographicCompare ''2'' ''1''
   \<and> (\<exists>sorted'.
         fst (handleDownloadCSV lexicographicCompare csvExample) = sorted'
       \<and> mset sorted' = mset csvExample
       \<and> sorted_wrt (\<lambda>a b. lexicographicCompare (rollNumber a) (rollNumber b) \<le> 0) sorted')
   \<and> snd (handleDownloadCSV lexicographicCompare csvExample)
       = Some (''Roll Number,Student Name,Status'' @ [CHR 0x0A]
               @ ''1,'' @ [CHR 0x22] @ ''Ann, Jr.'' @ [CHR 0x22] @ '',Absent'' @ [CHR 0x0A]
               @ ''2,'' @ [CHR 0x22] @ ''Bob'' @ [CHR 0x22] @ '',Present'')
   \<and> snd (handleDownloadCSV lexicographicCompare csvQuoteExample)
       = Some (''Roll Number,Student Name,Status'' @ [CHR 0x0A]
               @ ''3,'' @ [CHR 0x22] @ ''Cy '' @ [CHR 0x22, CHR 0x22] @ ''CJ''
               @ [CHR 0x22, CHR 0x22] @ '' Lee'' @ [CHR 0x22] @ '',Present'')"
proof -
  have h1: "csvExample \<noteq> []" by (simp add: csvExample_def)
  have h2: "\<forall>x y. lexicographicCompare x y \<le> 0 \<or> lexicographicCompare y x \<le> 0"
    using lexicographicCompare_total by blast
  have h3: "\<forall>x y z. lexicographicCompare x y \<le> 0 \<and> lexicographicCompare y z \<le> 0
              \<longrightarrow> lexicographicCompare x z \<le> 0"
    using lexicographicCompare_trans by blast
  have h4: "0 < lexicographicCompare ''2'' ''1''" by simp
  from handleDownloadCSV_rows [OF h1, of lexicographicCompare] obtain sorted' where
    a: "handleDownloadCSV lexicographicCompare csvExample
          = (sorted',
             Some (join [CHR 0x0A] (''Roll Number,Student Name,Status'' # map csvRow sorted')))"
    and b: "mset sorted' = mset csvExample"
    and c: "(\<forall>x y. lexicographicCompare x y \<le> 0 \<or> lexicographicCompare y x \<le> 0)
              \<and> (\<forall>x y z. lexicographicCompare x y \<le> 0 \<and> lexicographicCompare y z \<le> 0
                    \<longrightarrow> lexicographicCompare x z \<le> 0)
             \<longrightarrow> sorted_wrt (\<lambda>a b. lexicographicCompare (rollNumber a) (rollNumber b) \<le> 0)
                   sorted'"
    and e: "0 < lexicographicCompare ''2'' ''1''
             \<longrightarrow> snd (handleDownloadCSV lexicographicCompare csvExample)
                   = Some (''Roll Number,Student Name,Status'' @ [CHR 0x0A]
                           @ ''1,'' @ [CHR 0x22] @ ''Ann, Jr.'' @ [CHR 0x22] @ '',Absent''
                           @ [CHR 0x0A]
                           @ ''2,'' @ [CHR 0x22] @ ''Bob'' @ [CHR 0x22] @ '',Present'')"
    and q: "snd (handleDownloadCSV lexicographicCompare csvQuoteExample)
             = Some (''Roll Number,Student Name,Status'' @ [CHR 0x0A]
                     @ ''3,'' @ [CHR 0x22] @ ''Cy '' @ [CHR 0x22, CHR 0x22] @ ''CJ''
                     @ [CHR 0x22, CHR 0x22] @ '' Lee'' @ [CHR 0x22] @ '',Present'')"
    by (elim exE conjE) (rule that; assumption)
  from a have a': "fst (handleDownloadCSV lexicographicCompare csvExample) = sorted'"
    by (simp only: fst_conv)
  have c':
    "sorted_wrt (\<lambda>a b. lexicographicCompare (rollNumber a) (rollNumber b) \<le> 0) sorted'"
    by (rule mp [OF c]) (intro conjI h2 h3)
  from e h4 have e': "snd (handleDownloadCSV lexicographicCompare csvExample)
                   = Some (''Roll Number,Student Name,Status'' @ [CHR 0x0A]
                           @ ''1,'' @ [CHR 0x22] @ ''Ann, Jr.'' @ [CHR 0x22] @ '',Absent''
                           @ [CHR 0x0A]
                           @ ''2,'' @ [CHR 0x22] @ ''Bob'' @ [CHR 0x22] @ '',Present'')"
    by (rule mp)
  have ex: "\<exists>sorted'.
         fst (handleDownloadCSV lexicographicCompare csvExample) = sorted'
       \<and> mset sorted' = mset csvExample
       \<and> sorted_wrt (\<lambda>a b. lexicographicCompare (rollNumber a) (rollNumber b) \<le> 0) sorted'"
    by (rule exI [of _ sorted']) (intro conjI a' b c')
  show ?thesis
    by (rule conjI [OF h1 conjI [OF h4 conjI [OF ex conjI [OF e' q]]]])
qed

text \<open>
  Claim C4 as stated expects the row \<^verbatim>\<open>2,Bob,Present\<close> for a name without comma
  or quote; the export writes \<^verbatim>\<open>2,"Bob",Present\<close>.
\<close>

theorem handleDownloadCSV_example_counterexample:
  "snd (handleDownloadCSV lexicographicCompare csvExample)
     = Some (''Roll Number,Student Name,Status'' @ [CHR 0x0A]
             @ ''1,'' @ [CHR 0x22] @ ''Ann, Jr.'' @ [CHR 0x22] @ '',Absent'' @ [CHR 0x0A]
             @ ''2,'' @ [CHR 0x22] @ ''Bob'' @ [CHR 0x22] @ '',Present'')
   \<and> snd (handleDownloadCSV lexicographicCompare csvExample)
     \<noteq> Some (''Roll Number,Student Name,Status'' @ [CHR 0x0A]
             @ ''1,'' @ [CHR 0x22] @ ''Ann, Jr.'' @ [CHR 0x22] @ '',Absent'' @ [CHR 0x0A]
             @ ''2,Bob,Present'')"
  by (simp add: handleDownloadCSV_def Let_def csvHeaders_def csvExample_def csvRow_def
        doubleQuotes_def statusString_def dquote_def newline_def)

section \<open>Identifying an unknown face\<close>

lemma trim_decomposition:
  "\<exists>before after. t = before @ trim t @ after
     \<and> (\<forall>u \<in> set before. isWhiteSpace u) \<and> (\<forall>u \<in> set after. isWhiteSpace u)
     \<and> (trim t \<noteq> [] \<longrightarrow> \<not> isWhiteSpace (hd (trim t)) \<and> \<not> isWhiteSpace (last (trim t)))"
proof -
  let ?d = "dropWhile isWhiteSpace t"
  let ?e = "dropWhile isWhiteSpace (rev ?d)"
  let ?before = "takeWhile isWhiteSpace t"
  let ?after = "rev (takeWhile isWhiteSpace (rev ?d))"
  have tr: "trim t = rev ?e" by (simp add: trim_def)
  have "?d = rev (takeWhile isWhiteSpace (rev ?d) @ ?e)"
    by (simp only: takeWhile_dropWhile_id rev_rev_ident)
  then have d: "?d = trim t @ ?after"
    by (simp only: rev_append tr)
  have "t = ?before @ ?d" by simp
  with d have split: "t = ?before @ trim t @ ?after" by simp
  have wb: "\<forall>u \<in> set ?before. isWhiteSpace u"
    by (auto dest: set_takeWhileD)
  have wa: "\<forall>u \<in> set ?after. isWhiteSpace u"
    by (auto dest: set_takeWhileD)
  have ends: "\<not> isWhiteSpace (hd (trim t)) \<and> \<not> isWhiteSpace (last (trim t))"
    if ne: "trim t \<noteq> []"
  proof -
    from ne tr have e: "?e \<noteq> []" by simp
    then have "\<not> isWhiteSpace (hd ?e)" by (rule hd_dropWhile)
    with e have l: "\<not> isWhiteSpace (last (trim t))" by (simp add: tr last_rev)
    from ne d have dne: "?d \<noteq> []" by (metis Nil_is_append_conv)
    then have "\<not> isWhiteSpace (hd ?d)" by (rule hd_dropWhile)
    moreover from ne d have "hd ?d = hd (trim t)" by (metis hd_append2)
    ultimately show ?thesis using l by simp
  qed
  from split wb wa ends show ?thesis by blast
qed

lemma trim_sandwich:
  assumes "\<forall>u \<in> set before. isWhiteSpace u" and "\<forall>u \<in> set after. isWhiteSpace u"
    and "answer \<noteq> []" and "\<not> isWhiteSpace (hd answer)" and "\<not> isWhiteSpace (last answer)"
  shows "trim (before @ answer @ after) = answer"
proof -
  from assms(3) obtain a as where a: "answer = a # as" by (cases answer) auto
  with assms(4) have "\<not> isWhiteSpace a" by simp
  with a have "dropWhile isWhiteSpace (answer @ after) = answer @ after" by simp
  with assms(1) have d: "dropWhile isWhiteSpace (before @ answer @ after) = answer @ after"
    by (simp add: dropWhile_append2)
  from assms(3) obtain b bs where b: "rev answer = b # bs" by (cases "rev answer") auto
  with assms(3,5) have "\<not> isWhiteSpace b" by (metis hd_rev list.sel(1))
  with b have "dropWhile isWhiteSpace (rev answer) = rev answer" by simp
  moreover have "dropWhile isWhiteSpace (rev after @ rev answer)
                 = dropWhile isWhiteSpace (rev answer)"
    using assms(2) by (intro dropWhile_append2) simp
  ultimately have "dropWhile isWhiteSpace (rev after @ rev answer) = rev answer"
    by (simp only:)
  with d show ?thesis by (simp add: trim_def)
qed

lemma isWhiteSpace_table:
  "isWhiteSpace u \<longleftrightarrow>
     u \<in> {9, 10, 11, 12, 13, 32, 160, 5760, 8232, 8233, 8239, 8287, 12288, 65279}
           \<union> {8192..8202}"
  unfolding isWhiteSpace_def by auto

lemma hd_codeUnits: "s \<noteq> [] \<Longrightarrow> hd (codeUnits s) = of_char (hd s)"
  by (cases s) (simp_all add: codeUnits_def)

lemma last_codeUnits: "s \<noteq> [] \<Longrightarrow> last (codeUnits s) = of_char (last s)"
  by (simp add: codeUnits_def last_map)

lemma codeUnits_empty: "codeUnits s = [] \<longleftrightarrow> s = []"
  by (simp add: codeUnits_def)


lemma codeUnits_Bob: "codeUnits ''Bob'' = [66, 111, 98]"
  by code_simp

lemma codeUnits_chatty:
  "codeUnits ''Probably Bob'' = [80, 114, 111, 98, 97, 98, 108, 121, 32, 66, 111, 98]"
  by code_simp

lemma trim_plain: "trim (65279 # 32 # codeUnits ''Bob'' @ [160, 10]) = codeUnits ''Bob''"
  by (simp add: codeUnits_Bob trim_def isWhiteSpace_def)

lemma trim_chatty: "trim (codeUnits ''Probably Bob'') = codeUnits ''Probably Bob''"
  by (simp add: codeUnits_chatty trim_def isWhiteSpace_def)

lemma chatty_differs:
  "codeUnits ''Probably Bob'' \<noteq> codeUnits ''Bob''
   \<and> codeUnits ''Probably Bob'' \<noteq> codeUnits ''Unable to identify''"
  by code_simp

lemma identifyUnknownFace_request:
  assumes "absentStudents \<noteq> []"
  shows "identifyUnknownFace generateContent croppedImage mimeType absentStudents
         = ([\<lparr>request_model = ''gemini-2.5-pro'', request_mimeType = mimeType,
               request_data = croppedImage,
               request_text =
                 identifyPrompt (join '', '' (map student_name absentStudents))\<rparr>],
            (case generateContent
                    \<lparr>request_model = ''gemini-2.5-pro'', request_mimeType = mimeType,
                     request_data = croppedImage,
                     request_text =
                       identifyPrompt (join '', '' (map student_name absentStudents))\<rparr> of
               None \<Rightarrow> Inl ''AI identification failed.''
             | Some reply \<Rightarrow> Inr (trim reply)))"
  using assms by (simp add: identifyUnknownFace_def Let_def)

text \<open>
  Claim C9, as the code has it. With no candidate the function sends nothing and
  resolves to the fixed string "No absent students to match against.". With at
  least one candidate it sends exactly one request, and its outcome is decided by
  the reply alone: the error "AI identification failed." when the call throws,
  and otherwise the reply without the white space at its two ends, whatever the
  reply is: the reply is white space, then the result, then white space, and the
  result, when it is not empty, neither begins nor ends with white space. White
  space is the ECMAScript table. So the result is the name of a candidate or the
  string "Unable to identify" whenever the remote model replies with one of
  those, with or without white space around it.
\<close>

theorem identifyUnknownFace_outcome:
  "(absentStudents = []
      \<longrightarrow> identifyUnknownFace generateContent croppedImage mimeType absentStudents
            = ([], Inr (codeUnits ''No absent students to match against.'')))
   \<and> (absentStudents \<noteq> []
      \<longrightarrow> (\<exists>request.
             fst (identifyUnknownFace generateContent croppedImage mimeType absentStudents)
               = [request]
           \<and> (generateContent request = None
                \<longrightarrow> snd (identifyUnknownFace generateContent croppedImage mimeType absentStudents)
                      = Inl ''AI identification failed.'')
           \<and> (\<forall>reply. generateContent request = Some reply
                \<longrightarrow> (\<exists>before answer after.
                       reply = before @ answer @ after
                     \<and> snd (identifyUnknownFace generateContent croppedImage mimeType
                            absentStudents) = Inr answer
                     \<and> (\<forall>u \<in> set before. isWhiteSpace u)
                     \<and> (\<forall>u \<in> set after. isWhiteSpace u)
                     \<and> (answer \<noteq> []
                          \<longrightarrow> \<not> isWhiteSpace (hd answer) \<and> \<not> isWhiteSpace (last answer))))))
   \<and> (\<forall>u. isWhiteSpace u \<longleftrightarrow>
            u \<in> {9, 10, 11, 12, 13, 32, 160, 5760, 8232, 8233, 8239, 8287, 12288, 65279}
                  \<union> {8192..8202})
   \<and> (absentStudents \<noteq> []
       \<and> (\<forall>request. \<exists>before name after.
              generateContent request = Some (before @ codeUnits name @ after)
            \<and> (\<forall>u \<in> set before. isWhiteSpace u) \<and> (\<forall>u \<in> set after. isWhiteSpace u)
            \<and> name \<noteq> []
            \<and> \<not> isWhiteSpace (of_char (hd name)) \<and> \<not> isWhiteSpace (of_char (last name))
            \<and> (name \<in> set (map student_name absentStudents) \<or> name = ''Unable to identify''))
      \<longrightarrow> (\<exists>name.
             snd (identifyUnknownFace generateContent croppedImage mimeType absentStudents)
               = Inr (codeUnits name)
           \<and> (name \<in> set (map student_name absentStudents)
                \<or> name = ''Unable to identify'')))"
proof (intro conjI impI)
  assume "absentStudents = []"
  then show "identifyUnknownFace generateContent croppedImage mimeType absentStudents
            = ([], Inr (codeUnits ''No absent students to match against.''))"
    by (simp add: identifyUnknownFace_def noAbsentStudents_def)
next
  let ?request = "\<lparr>request_model = ''gemini-2.5-pro'', request_mimeType = mimeType,
                    request_data = croppedImage,
                    request_text =
                      identifyPrompt (join '', '' (map student_name absentStudents))\<rparr>"
  let ?run = "identifyUnknownFace generateContent croppedImage mimeType absentStudents"
  assume ne: "absentStudents \<noteq> []"
  note eq = identifyUnknownFace_request [OF ne, of generateContent croppedImage mimeType]
  have sent: "fst ?run = [?request]" by (simp add: eq)
  have failed: "generateContent ?request = None \<longrightarrow> snd ?run = Inl ''AI identification failed.''"
    by (simp add: eq)
  have replied: "\<forall>reply. generateContent ?request = Some reply
                \<longrightarrow> (\<exists>before answer after.
                       reply = before @ answer @ after
                     \<and> snd ?run = Inr answer
                     \<and> (\<forall>u \<in> set before. isWhiteSpace u)
                     \<and> (\<forall>u \<in> set after. isWhiteSpace u)
                     \<and> (answer \<noteq> []
                          \<longrightarrow> \<not> isWhiteSpace (hd answer) \<and> \<not> isWhiteSpace (last answer)))"
  proof (intro allI impI)
    fix reply assume r: "generateContent ?request = Some reply"
    then have res: "snd ?run = Inr (trim reply)" by (simp add: eq)
    from trim_decomposition [of reply] obtain before after where
      "reply = before @ trim reply @ after"
      "\<forall>u \<in> set before. isWhiteSpace u" "\<forall>u \<in> set after. isWhiteSpace u"
      "trim reply \<noteq> [] \<longrightarrow> \<not> isWhiteSpace (hd (trim reply)) \<and> \<not> isWhiteSpace (last (trim reply))"
      by blast
    with res show "\<exists>before answer after.
                       reply = before @ answer @ after
                     \<and> snd ?run = Inr answer
                     \<and> (\<forall>u \<in> set before. isWhiteSpace u)
                     \<and> (\<forall>u \<in> set after. isWhiteSpace u)
                     \<and> (answer \<noteq> []
                          \<longrightarrow> \<not> isWhiteSpace (hd answer) \<and> \<not> isWhiteSpace (last answer))"
      by blast
  qed
  from sent failed replied
  show "\<exists>request.
             fst ?run = [request]
           \<and> (generateContent request = None \<longrightarrow> snd ?run = Inl ''AI identification failed.'')
           \<and> (\<forall>reply. generateContent request = Some reply
                \<longrightarrow> (\<exists>before answer after.
                       reply = before @ answer @ after
                     \<and> snd ?run = Inr answer
                     \<and> (\<forall>u \<in> set before. isWhiteSpace u)
                     \<and> (\<forall>u \<in> set after. isWhiteSpace u)
                     \<and> (answer \<noteq> []
                          \<longrightarrow> \<not> isWhiteSpace (hd answer) \<and> \<not> isWhiteSpace (last answer))))"
    by (intro exI [of _ ?request] conjI)
next
  show "\<forall>u. isWhiteSpace u \<longleftrightarrow>
            u \<in> {9, 10, 11, 12, 13, 32, 160, 5760, 8232, 8233, 8239, 8287, 12288, 65279}
                  \<union> {8192..8202}"
    using isWhiteSpace_table by (rule allI)
next
  let ?request = "\<lparr>request_model = ''gemini-2.5-pro'', request_mimeType = mimeType,
                    request_data = croppedImage,
                    request_text =
                      identifyPrompt (join '', '' (map student_name absentStudents))\<rparr>"
  let ?run = "identifyUnknownFace generateContent croppedImage mimeType absentStudents"
  assume a: "absentStudents \<noteq> []
       \<and> (\<forall>request. \<exists>before name after.
              generateContent request = Some (before @ codeUnits name @ after)
            \<and> (\<forall>u \<in> set before. isWhiteSpace u) \<and> (\<forall>u \<in> set after. isWhiteSpace u)
            \<and> name \<noteq> []
            \<and> \<not> isWhiteSpace (of_char (hd name)) \<and> \<not> isWhiteSpace (of_char (last name))
            \<and> (name \<in> set (map student_name absentStudents) \<or> name = ''Unable to identify''))"
  then have ne: "absentStudents \<noteq> []" by (rule conjunct1)
  from a obtain before name after where
    g: "generateContent ?request = Some (before @ codeUnits name @ after)"
    and wb: "\<forall>u \<in> set before. isWhiteSpace u" and wa: "\<forall>u \<in> set after. isWhiteSpace u"
    and n: "name \<noteq> []"
    and h: "\<not> isWhiteSpace (of_char (hd name))" and l: "\<not> isWhiteSpace (of_char (last name))"
    and ok: "name \<in> set (map student_name absentStudents) \<or> name = ''Unable to identify''"
    by blast
  from n have cn: "codeUnits name \<noteq> []" by (simp add: codeUnits_empty)
  from n h have ch: "\<not> isWhiteSpace (hd (codeUnits name))" by (simp add: hd_codeUnits)
  from n l have cl: "\<not> isWhiteSpace (last (codeUnits name))" by (simp add: last_codeUnits)
  have "trim (before @ codeUnits name @ after) = codeUnits name"
    using wb wa cn ch cl by (rule trim_sandwich)
  with g have "snd ?run = Inr (codeUnits name)"
    by (simp add: identifyUnknownFace_request [OF ne])
  with ok show "\<exists>name. snd ?run = Inr (codeUnits name)
           \<and> (name \<in> set (map student_name absentStudents) \<or> name = ''Unable to identify'')"
    by blast
qed

theorem identifyUnknownFace_outcome_witness:
  "([] :: Student list) = [] \<and> [bob] \<noteq> []
   \<and> (\<forall>request. \<exists>before name after.
          plainModel request = Some (before @ codeUnits name @ after)
        \<and> before = [65279, 32] \<and> after = [160, 10] \<and> name = ''Bob''
        \<and> isWhiteSpace 65279 \<and> isWhiteSpace 32 \<and> isWhiteSpace 160 \<and> isWhiteSpace 10
        \<and> \<not> isWhiteSpace (of_char (hd name)) \<and> \<not> isWhiteSpace (of_char (last name))
        \<and> name \<in> set (map student_name [bob]))
   \<and> identifyUnknownFace plainModel ''AA=='' ''image/png'' []
       = ([], Inr (codeUnits ''No absent students to match against.''))
   \<and> length (fst (identifyUnknownFace plainModel ''AA=='' ''image/png'' [bob])) = 1
   \<and> snd (identifyUnknownFace plainModel ''AA=='' ''image/png'' [bob]) = Inr (codeUnits ''Bob'')
   \<and> (\<exists>name. snd (identifyUnknownFace plainModel ''AA=='' ''image/png'' [bob])
               = Inr (codeUnits name)
         \<and> (name \<in> set (map student_name [bob]) \<or> name = ''Unable to identify''))"
proof -
  have w: "isWhiteSpace 65279 \<and> isWhiteSpace 32 \<and> isWhiteSpace 160 \<and> isWhiteSpace 10"
    by (simp add: isWhiteSpace_def)
  have e: "\<not> isWhiteSpace (of_char (hd ''Bob'')) \<and> \<not> isWhiteSpace (of_char (last ''Bob''))"
    by (simp add: isWhiteSpace_def)
  have h1: "\<forall>request. \<exists>before name after.
          plainModel request = Some (before @ codeUnits name @ after)
        \<and> before = [65279, 32] \<and> after = [160, 10] \<and> name = ''Bob''
        \<and> isWhiteSpace 65279 \<and> isWhiteSpace 32 \<and> isWhiteSpace 160 \<and> isWhiteSpace 10
        \<and> \<not> isWhiteSpace (of_char (hd name)) \<and> \<not> isWhiteSpace (of_char (last name))
        \<and> name \<in> set (map student_name [bob])"
    using w e by (simp add: plainModel_def bob_def)
  have h2: "\<forall>request. \<exists>before name after.
              plainModel request = Some (before @ codeUnits name @ after)
            \<and> (\<forall>u \<in> set before. isWhiteSpace u) \<and> (\<forall>u \<in> set after. isWhiteSpace u)
            \<and> name \<noteq> []
            \<and> \<not> isWhiteSpace (of_char (hd name)) \<and> \<not> isWhiteSpace (of_char (last name))
            \<and> (name \<in> set (map student_name [bob]) \<or> name = ''Unable to identify'')"
  proof
    fix request
    show "\<exists>before name after.
              plainModel request = Some (before @ codeUnits name @ after)
            \<and> (\<forall>u \<in> set before. isWhiteSpace u) \<and> (\<forall>u \<in> set after. isWhiteSpace u)
            \<and> name \<noteq> []
            \<and> \<not> isWhiteSpace (of_char (hd name)) \<and> \<not> isWhiteSpace (of_char (last name))
            \<and> (name \<in> set (map student_name [bob]) \<or> name = ''Unable to identify'')"
      using w e
      by (intro exI [of _ "[65279, 32]"] exI [of _ "''Bob''"] exI [of _ "[160, 10]"])
        (simp add: plainModel_def bob_def)
  qed
  have n: "[bob] \<noteq> []" by simp
  note empty = identifyUnknownFace_outcome [of "[]" plainModel "''AA==''" "''image/png''"]
  note one = identifyUnknownFace_outcome [of "[bob]" plainModel "''AA==''" "''image/png''"]
  from empty have c1: "identifyUnknownFace plainModel ''AA=='' ''image/png'' []
       = ([], Inr (codeUnits ''No absent students to match against.''))"
    by (rule conjunct1 [THEN mp]) simp
  from one [THEN conjunct2, THEN conjunct1, THEN mp, OF n] obtain request where
    r: "fst (identifyUnknownFace plainModel ''AA=='' ''image/png'' [bob]) = [request]"
    by blast
  then have c2: "length (fst (identifyUnknownFace plainModel ''AA=='' ''image/png'' [bob])) = 1"
    by simp
  have c4: "\<exists>name. snd (identifyUnknownFace plainModel ''AA=='' ''image/png'' [bob])
               = Inr (codeUnits name)
         \<and> (name \<in> set (map student_name [bob]) \<or> name = ''Unable to identify'')"
    by (rule one [THEN conjunct2, THEN conjunct2, THEN conjunct2, THEN mp])
      (intro conjI n h2)
  have c3: "snd (identifyUnknownFace plainModel ''AA=='' ''image/png'' [bob])
            = Inr (codeUnits ''Bob'')"
    by (simp add: identifyUnknownFace_def Let_def plainModel_def trim_plain)
  have c0: "([] :: Student list) = []" by (rule refl)
  show ?thesis
    by (rule conjI [OF c0 conjI [OF n conjI [OF h1 conjI [OF c1 conjI [OF c2 conjI [OF c3 c4]]]]]])
qed

text \<open>
  Claim C9 as stated fails for a model that replies with anything else: the reply
  is passed on as it is.
\<close>

theorem identifyUnknownFace_counterexample:
  "snd (identifyUnknownFace chattyModel ''AA=='' ''image/png'' [bob])
     = Inr (codeUnits ''Probably Bob'')
   \<and> student_name bob = ''Bob''
   \<and> codeUnits ''Probably Bob'' \<noteq> codeUnits ''Bob''
   \<and> codeUnits ''Probably Bob'' \<noteq> codeUnits ''Unable to identify''"
proof -
  have r: "snd (identifyUnknownFace chattyModel ''AA=='' ''image/png'' [bob])
           = Inr (codeUnits ''Probably Bob'')"
    by (simp add: identifyUnknownFace_def Let_def chattyModel_def trim_chatty)
  have b: "student_name bob = ''Bob''" by (simp add: bob_def)
  show ?thesis
    by (intro conjI r b chatty_differs [THEN conjunct1] chatty_differs [THEN conjunct2])
qed

section \<open>Login\<close>

lemma find_filter:
  "find P xs = (case filter P xs of [] \<Rightarrow> None | x # _ \<Rightarrow> Some x)"
  by (induction xs) simp_all

lemma studentLogin_first_match:
  "studentLogin cls libraryId password
   = (case concat (map (\<lambda>c. map (Pair c)
                (filter (\<lambda>s. student_rollNumber s = libraryId
                             \<and> student_password s = Some password) (students c))) cls) of
        [] \<Rightarrow> None
      | (c, s) # _ \<Rightarrow>
          Some \<lparr>user_role = RoleStudent, user_studentId = Some (student_id s),
                user_classroomId = Some (classroom_id c)\<rparr>)"
proof (induction cls)
  case Nil
  show ?case by simp
next
  case (Cons c cs)
  show ?case
    by (cases "filter (\<lambda>s. student_rollNumber s = libraryId
                             \<and> student_password s = Some password) (students c)")
      (simp_all add: find_filter Cons.IH)
qed

lemma studentLogin_Some_iff:
  "(\<exists>user. studentLogin cls libraryId password = Some user)
   \<longleftrightarrow> (\<exists>c \<in> set cls. \<exists>s \<in> set (students c).
          student_rollNumber s = libraryId \<and> student_password s = Some password)"
proof (induction cls)
  case Nil
  show ?case by simp
next
  case (Cons c cs)
  let ?P = "\<lambda>s. student_rollNumber s = libraryId \<and> student_password s = Some password"
  show ?case
  proof (cases "find ?P (students c)")
    case None
    then have no: "\<not> (\<exists>s \<in> set (students c). ?P s)"
      by (simp add: find_None_iff)
    from None have "studentLogin (c # cs) libraryId password = studentLogin cs libraryId password"
      by simp
    moreover from no have "(\<exists>c' \<in> set (c # cs). \<exists>s \<in> set (students c'). ?P s)
                     \<longleftrightarrow> (\<exists>c' \<in> set cs. \<exists>s \<in> set (students c'). ?P s)"
      by auto
    ultimately show ?thesis using Cons.IH by (simp only:)
  next
    case (Some s)
    then have "\<exists>s \<in> set (students c). ?P s"
      by (auto simp add: find_Some_iff)
    with Some show ?thesis by simp
  qed
qed

lemma login_result_cases:
  "(case (case L of [] \<Rightarrow> None | (c, s) # _ \<Rightarrow> Some (f c s)) of
      Some user \<Rightarrow> Inr user
    | None \<Rightarrow> Inl e)
   = (case L of [] \<Rightarrow> Inl e | (c, s) # _ \<Rightarrow> Inr (f c s))"
  by (cases L) (auto split: prod.splits)

lemma lower_Teacher: "toLowerCase ''TeaCher'' = ''teacher''"
  by code_simp

text \<open>
  Claim C10, as the code has it. With no role selected the form shows "Please
  select your role." and nobody is logged in. With the role teacher the login
  succeeds, as teacher, exactly when the library id in lower case is "teacher"
  and the password is "password123". With the role student it succeeds exactly
  when some classroom has a student with that roll number and that password, and
  the user is then the first such student, classrooms taken in the order of the
  list and students in the order of the roster. Every other input with a role
  selected shows the invalid-credentials message and logs nobody in.
\<close>

theorem handleSubmit_outcomes:
  "handleSubmit cls None libraryId password = Inl ''Please select your role.''
   \<and> handleSubmit cls (Some RoleTeacher) libraryId password
       = (if toLowerCase libraryId = ''teacher'' \<and> password = ''password123''
          then Inr \<lparr>user_role = RoleTeacher, user_studentId = None, user_classroomId = None\<rparr>
          else Inl invalidCredentials)
   \<and> handleSubmit cls (Some RoleStudent) libraryId password
       = (case concat (map (\<lambda>c. map (Pair c)
                (filter (\<lambda>s. student_rollNumber s = libraryId
                             \<and> student_password s = Some password) (students c))) cls) of
            [] \<Rightarrow> Inl invalidCredentials
          | (c, s) # _ \<Rightarrow>
              Inr \<lparr>user_role = RoleStudent, user_studentId = Some (student_id s),
                   user_classroomId = Some (classroom_id c)\<rparr>)
   \<and> ((\<exists>user. handleSubmit cls (Some RoleStudent) libraryId password = Inr user)
       \<longleftrightarrow> (\<exists>c \<in> set cls. \<exists>s \<in> set (students c).
              student_rollNumber s = libraryId \<and> student_password s = Some password))"
proof (intro conjI)
  show "handleSubmit cls None libraryId password = Inl ''Please select your role.''"
    by (simp add: handleSubmit_def)
  show "handleSubmit cls (Some RoleTeacher) libraryId password
       = (if toLowerCase libraryId = ''teacher'' \<and> password = ''password123''
          then Inr \<lparr>user_role = RoleTeacher, user_studentId = None, user_classroomId = None\<rparr>
          else Inl invalidCredentials)"
    by (simp add: handleSubmit_def)
  show "handleSubmit cls (Some RoleStudent) libraryId password
       = (case concat (map (\<lambda>c. map (Pair c)
                (filter (\<lambda>s. student_rollNumber s = libraryId
                             \<and> student_password s = Some password) (students c))) cls) of
            [] \<Rightarrow> Inl invalidCredentials
          | (c, s) # _ \<Rightarrow>
              Inr \<lparr>user_role = RoleStudent, user_studentId = Some (student_id s),
                   user_classroomId = Some (classroom_id c)\<rparr>)"
    by (simp add: handleSubmit_def studentLogin_first_match login_result_cases)
  have "(\<exists>user. handleSubmit cls (Some RoleStudent) libraryId password = Inr user)
        \<longleftrightarrow> (\<exists>user. studentLogin cls libraryId password = Some user)"
    by (simp add: handleSubmit_def split: option.splits)
  then show "(\<exists>user. handleSubmit cls (Some RoleStudent) libraryId password = Inr user)
       \<longleftrightarrow> (\<exists>c \<in> set cls. \<exists>s \<in> set (students c).
              student_rollNumber s = libraryId \<and> student_password s = Some password)"
    by (simp only: studentLogin_Some_iff)
qed

theorem handleSubmit_outcomes_witness:
  "(\<exists>c \<in> set [classA, classB]. \<exists>s \<in> set (students c).
       student_rollNumber s = ''1'' \<and> student_password s = Some ''pw-bob'')
   \<and> handleSubmit [classA, classB] (Some RoleStudent) ''1'' ''pw-bob''
       = Inr \<lparr>user_role = RoleStudent, user_studentId = Some ''student-2'',
              user_classroomId = Some ''class-1''\<rparr>
   \<and> handleSubmit [classA, classB] (Some RoleStudent) ''1'' ''wrong'' = Inl invalidCredentials
   \<and> handleSubmit [classA, classB] (Some RoleTeacher) ''TeaCher'' ''password123''
       = Inr \<lparr>user_role = RoleTeacher, user_studentId = None, user_classroomId = None\<rparr>
   \<and> handleSubmit [classA, classB] (Some RoleTeacher) ''1'' ''pw-bob'' = Inl invalidCredentials"
proof -
  note bob_login = handleSubmit_outcomes [of "[classA, classB]" "''1''" "''pw-bob''"]
  note bad_login = handleSubmit_outcomes [of "[classA, classB]" "''1''" "''wrong''"]
  note teacher_login = handleSubmit_outcomes [of "[classA, classB]" "''TeaCher''" "''password123''"]
  have m: "\<exists>c \<in> set [classA, classB]. \<exists>s \<in> set (students c).
       student_rollNumber s = ''1'' \<and> student_password s = Some ''pw-bob''"
    by (simp add: sample_defs)
  have s1: "handleSubmit [classA, classB] (Some RoleStudent) ''1'' ''pw-bob''
       = Inr \<lparr>user_role = RoleStudent, user_studentId = Some ''student-2'',
              user_classroomId = Some ''class-1''\<rparr>"
    by (subst bob_login [THEN conjunct2, THEN conjunct2, THEN conjunct1])
      (simp add: sample_defs)
  have s2: "handleSubmit [classA, classB] (Some RoleStudent) ''1'' ''wrong''
       = Inl invalidCredentials"
    by (subst bad_login [THEN conjunct2, THEN conjunct2, THEN conjunct1])
      (simp add: sample_defs)
  have t1: "handleSubmit [classA, classB] (Some RoleTeacher) ''TeaCher'' ''password123''
       = Inr \<lparr>user_role = RoleTeacher, user_studentId = None, user_classroomId = None\<rparr>"
    by (subst teacher_login [THEN conjunct2, THEN conjunct1]) (simp add: lower_Teacher)
  have t2: "handleSubmit [classA, classB] (Some RoleTeacher) ''1'' ''pw-bob''
       = Inl invalidCredentials"
    by (subst bob_login [THEN conjunct2, THEN conjunct1]) simp
  show ?thesis by (intro conjI m s1 s2 t1 t2)
qed

text \<open>
  Claim C10 as stated promises the invalid-credentials error for every input that
  does not log in; with no role selected the form shows another message.
\<close>

theorem handleSubmit_no_role_counterexample:
  "handleSubmit [classA, classB] None ''nobody'' ''nothing'' = Inl ''Please select your role.''
   \<and> handleSubmit [classA, classB] None ''nobody'' ''nothing'' \<noteq> Inl invalidCredentials"
  by (simp add: handleSubmit_def invalidCredentials_def)

end
